theory Spec2Isabelle
  imports Main "HOL-Library.Word"
begin

unbundle bit_operations_syntax

section \<open>Data model of \<^verbatim>\<open>allocator.c\<close>\<close>

text \<open>
  The allocator runs on an LP64 platform: \<^verbatim>\<open>size_t\<close> and pointers are 64-bit words whose
  arithmetic wraps, \<^verbatim>\<open>int\<close> is a 32-bit word. The null pointer is the word 0.
\<close>

type_synonym size_t = "64 word"
type_synonym addr = "64 word"
type_synonym c_int = "32 word"

text \<open>
  \<^verbatim>\<open>struct block_header\<close>. The fields \<^verbatim>\<open>size\<close>, \<^verbatim>\<open>next\<close> and \<^verbatim>\<open>prev\<close> carry the suffix
  \<open>_b\<close> because their plain names are taken in Isabelle.
\<close>

record block_header =
  size_b :: size_t
  next_b :: addr
  prev_b :: addr
  is_free :: c_int
  is_mmap :: c_int

text \<open>\<^verbatim>\<open>mem_stats_t\<close> of \<^verbatim>\<open>allocator.h\<close>.\<close>

record mem_stats_t =
  total_allocated :: size_t
  total_freed :: size_t
  current_usage :: size_t
  num_allocations :: size_t
  num_frees :: size_t
  num_splits :: size_t
  num_coalesces :: size_t

text \<open>
  The whole state the code reads and writes. The first four fields are the file-scope
  variables of \<^verbatim>\<open>allocator.c\<close>. Memory is split by type, as the code uses it: \<open>hdr s a\<close> is
  the \<^verbatim>\<open>block_header_t\<close> stored at address \<open>a\<close>, and \<open>bytes s a\<close> is the payload byte at
  address \<open>a\<close> (the code itself touches payload bytes only in \<^verbatim>\<open>memset\<close> and \<^verbatim>\<open>memcpy\<close>).
  The last four fields are the operating system: the program break moved by \<^verbatim>\<open>sbrk\<close>, the
  highest break the system grants, the answers the system gives to the coming \<^verbatim>\<open>mmap\<close>
  calls, and the anonymous mappings that currently exist (address and length).
\<close>

record allocator =
  free_lists :: "nat \<Rightarrow> addr"
  stats :: mem_stats_t
  heap_start :: addr
  heap_end :: addr
  hdr :: "addr \<Rightarrow> block_header"
  bytes :: "addr \<Rightarrow> 8 word"
  brk :: addr
  brk_limit :: addr
  mmap_answers :: "addr list"
  mappings :: "(addr \<times> size_t) list"

subsection \<open>Configuration constants\<close>

definition MIN_BLOCK_SIZE :: size_t where
  "MIN_BLOCK_SIZE = 32"

definition ALIGNMENT :: size_t where
  "ALIGNMENT = 16"

definition NUM_SIZE_CLASSES :: nat where
  "NUM_SIZE_CLASSES = 10"

definition MMAP_THRESHOLD :: size_t where
  "MMAP_THRESHOLD = 128 * 1024"

definition BRK_INCREMENT :: size_t where
  "BRK_INCREMENT = 64 * 1024"

text \<open>
  \<^verbatim>\<open>sizeof(block_header_t)\<close>: three 8-byte members and two 4-byte members, 32 bytes on
  LP64 with no padding.
\<close>

definition sizeof_block_header_t :: size_t where
  "sizeof_block_header_t = 32"

definition NULL :: addr where
  "NULL = 0"

text \<open>\<^verbatim>\<open>(void*)-1\<close>, the failure value of \<^verbatim>\<open>sbrk\<close>, and \<^verbatim>\<open>MAP_FAILED\<close>, which is the same word.\<close>

definition SBRK_FAILED :: addr where
  "SBRK_FAILED = - 1"

definition MAP_FAILED :: addr where
  "MAP_FAILED = - 1"

subsection \<open>Field assignments through a pointer\<close>

definition set_size :: "addr \<Rightarrow> size_t \<Rightarrow> allocator \<Rightarrow> allocator" where
  "set_size p v s = s\<lparr>hdr := (hdr s)(p := (hdr s p)\<lparr>size_b := v\<rparr>)\<rparr>"

definition set_next :: "addr \<Rightarrow> addr \<Rightarrow> allocator \<Rightarrow> allocator" where
  "set_next p v s = s\<lparr>hdr := (hdr s)(p := (hdr s p)\<lparr>next_b := v\<rparr>)\<rparr>"

definition set_prev :: "addr \<Rightarrow> addr \<Rightarrow> allocator \<Rightarrow> allocator" where
  "set_prev p v s = s\<lparr>hdr := (hdr s)(p := (hdr s p)\<lparr>prev_b := v\<rparr>)\<rparr>"

definition set_is_free :: "addr \<Rightarrow> c_int \<Rightarrow> allocator \<Rightarrow> allocator" where
  "set_is_free p v s = s\<lparr>hdr := (hdr s)(p := (hdr s p)\<lparr>is_free := v\<rparr>)\<rparr>"

definition set_is_mmap :: "addr \<Rightarrow> c_int \<Rightarrow> allocator \<Rightarrow> allocator" where
  "set_is_mmap p v s = s\<lparr>hdr := (hdr s)(p := (hdr s p)\<lparr>is_mmap := v\<rparr>)\<rparr>"

definition set_free_list :: "nat \<Rightarrow> addr \<Rightarrow> allocator \<Rightarrow> allocator" where
  "set_free_list i v s = s\<lparr>free_lists := (free_lists s)(i := v)\<rparr>"

section \<open>The operating system\<close>

text \<open>
  \<^verbatim>\<open>sbrk(incr)\<close> for the increments the allocator passes (0 and a positive size): the break
  moves up by \<open>incr\<close> and the old break is returned, or the call fails with \<^verbatim>\<open>(void*)-1\<close>
  and leaves the break alone when the new break would pass the limit.
\<close>

definition sbrk :: "size_t \<Rightarrow> allocator \<Rightarrow> addr \<times> allocator" where
  "sbrk incr s =
     (if unat (brk s) + unat incr \<le> unat (brk_limit s)
      then (brk s, s\<lparr>brk := brk s + incr\<rparr>)
      else (SBRK_FAILED, s))"

text \<open>
  \<^verbatim>\<open>mmap(NULL, len, PROT_READ | PROT_WRITE, MAP_PRIVATE | MAP_ANONYMOUS, -1, 0)\<close>: the
  system's next answer is consumed. A mapping starts on a page boundary (4096 bytes); any
  other answer, and no answer at all, is the failure \<^verbatim>\<open>MAP_FAILED\<close>.
\<close>

definition mmap_anon :: "size_t \<Rightarrow> allocator \<Rightarrow> addr \<times> allocator" where
  "mmap_anon len s =
     (case mmap_answers s of
        [] \<Rightarrow> (MAP_FAILED, s)
      | a # rest \<Rightarrow>
          if a = MAP_FAILED \<or> a AND 4095 \<noteq> 0
          then (MAP_FAILED, s\<lparr>mmap_answers := rest\<rparr>)
          else (a, s\<lparr>mmap_answers := rest, mappings := (a, len) # mappings s\<rparr>))"

text \<open>\<^verbatim>\<open>munmap(a, len)\<close>: the mapping of that address and length is gone.\<close>

definition munmap :: "addr \<Rightarrow> size_t \<Rightarrow> allocator \<Rightarrow> allocator" where
  "munmap a len s = s\<lparr>mappings := removeAll (a, len) (mappings s)\<rparr>"

section \<open>The allocation engine\<close>

definition align_size :: "size_t \<Rightarrow> size_t" where
  "align_size sz = (sz + ALIGNMENT - 1) AND NOT (ALIGNMENT - 1)"

definition get_size_class :: "size_t \<Rightarrow> nat" where
  "get_size_class sz =
     (if sz \<le> 32 then 0
      else if sz \<le> 64 then 1
      else if sz \<le> 128 then 2
      else if sz \<le> 256 then 3
      else if sz \<le> 512 then 4
      else if sz \<le> 1024 then 5
      else if sz \<le> 2048 then 6
      else if sz \<le> 4096 then 7
      else if sz \<le> 8192 then 8
      else 9)"

text \<open>
  \<^verbatim>\<open>remove_from_free_list\<close>. Each assignment reads the memory the one before it left, so a
  block whose \<^verbatim>\<open>prev\<close> or \<^verbatim>\<open>next\<close> points at itself behaves as in C.
\<close>

definition remove_from_free_list :: "addr \<Rightarrow> allocator \<Rightarrow> allocator" where
  "remove_from_free_list block s =
     (let class_idx = get_size_class (size_b (hdr s block));
          s1 = (if prev_b (hdr s block) \<noteq> NULL
                then set_next (prev_b (hdr s block)) (next_b (hdr s block)) s
                else set_free_list class_idx (next_b (hdr s block)) s);
          s2 = (if next_b (hdr s1 block) \<noteq> NULL
                then set_prev (next_b (hdr s1 block)) (prev_b (hdr s1 block)) s1
                else s1);
          s3 = set_next block NULL s2
      in set_prev block NULL s3)"

definition add_to_free_list :: "addr \<Rightarrow> allocator \<Rightarrow> allocator" where
  "add_to_free_list block s =
     (let class_idx = get_size_class (size_b (hdr s block));
          s1 = set_next block (free_lists s class_idx) s;
          s2 = set_prev block NULL s1;
          s3 = (if free_lists s2 class_idx \<noteq> NULL
                then set_prev (free_lists s2 class_idx) block s2
                else s2);
          s4 = set_free_list class_idx block s3
      in set_is_free block 1 s4)"

definition inc_coalesces :: "allocator \<Rightarrow> allocator" where
  "inc_coalesces s = s\<lparr>stats := (stats s)\<lparr>num_coalesces := num_coalesces (stats s) + 1\<rparr>\<rparr>"

definition inc_splits :: "allocator \<Rightarrow> allocator" where
  "inc_splits s = s\<lparr>stats := (stats s)\<lparr>num_splits := num_splits (stats s) + 1\<rparr>\<rparr>"

text \<open>
  \<^verbatim>\<open>coalesce\<close> calls itself for as long as the block that follows in memory is free. Nothing
  bounds that recursion (a free follower of size 0 is merged for ever), so the function
  is partial: \<open>None\<close> means that the call does not return.
\<close>

partial_function (option) coalesce :: "addr \<Rightarrow> allocator \<Rightarrow> (addr \<times> allocator) option" where
  "coalesce block s =
     (if block = NULL \<or> is_mmap (hdr s block) \<noteq> 0 then Some (block, s)
      else
        let block_end = block + size_b (hdr s block) in
        if block_end \<ge> heap_end s \<or> block_end < heap_start s then Some (block, s)
        else
          let next_block = block_end in
          if next_block + sizeof_block_header_t > heap_end s then Some (block, s)
          else if is_free (hdr s next_block) \<noteq> 0 \<and> is_mmap (hdr s next_block) = 0 then
            let s1 = remove_from_free_list next_block s;
                s2 = set_size block (size_b (hdr s1 block) + size_b (hdr s1 next_block)) s1;
                s3 = inc_coalesces s2
            in coalesce block s3
          else Some (block, s))"

definition split_block :: "addr \<Rightarrow> size_t \<Rightarrow> allocator \<Rightarrow> allocator" where
  "split_block block sz s =
     (let total_size = align_size (sz + sizeof_block_header_t) in
      if size_b (hdr s block) \<ge> total_size + sizeof_block_header_t + MIN_BLOCK_SIZE then
        let new_block = block + total_size;
            s1 = set_size new_block (size_b (hdr s block) - total_size) s;
            s2 = set_is_free new_block 1 s1;
            s3 = set_is_mmap new_block 0 s2;
            s4 = set_next new_block NULL s3;
            s5 = set_prev new_block NULL s4;
            s6 = set_size block total_size s5;
            s7 = add_to_free_list new_block s6
        in inc_splits s7
      else s)"

definition expand_heap :: "size_t \<Rightarrow> allocator \<Rightarrow> addr \<times> allocator" where
  "expand_heap sz s =
     (let alloc_size = (if sz < BRK_INCREMENT then BRK_INCREMENT else align_size sz);
          (old_brk, s1) = sbrk 0 s in
      if old_brk = SBRK_FAILED then (NULL, s1)
      else
        let (new_brk, s2) = sbrk alloc_size s1 in
        if new_brk = SBRK_FAILED then (NULL, s2)
        else
          let s3 = (if heap_start s2 = NULL then s2\<lparr>heap_start := old_brk\<rparr> else s2);
              (cur_brk, s4) = sbrk 0 s3;
              s5 = s4\<lparr>heap_end := cur_brk\<rparr>;
              block = old_brk;
              s6 = set_size block alloc_size s5;
              s7 = set_is_free block 1 s6;
              s8 = set_is_mmap block 0 s7;
              s9 = set_next block NULL s8;
              s10 = set_prev block NULL s9
          in (block, s10))"

text \<open>
  The inner \<^verbatim>\<open>while (current)\<close> loop of \<^verbatim>\<open>find_free_block\<close>, over one list. It follows
  \<^verbatim>\<open>next\<close> pointers and ends at the first fitting block or at a null pointer; on a cyclic
  list with no fitting block it runs for ever (\<open>None\<close>). The result \<open>NULL\<close> means that the
  list is exhausted.
\<close>

partial_function (option) find_in_list :: "allocator \<Rightarrow> size_t \<Rightarrow> addr \<Rightarrow> addr option" where
  "find_in_list s sz current =
     (if current \<noteq> NULL then
        if is_free (hdr s current) \<noteq> 0 \<and> size_b (hdr s current) \<ge> sz then Some current
        else find_in_list s sz (next_b (hdr s current))
      else Some NULL)"

text \<open>The outer \<^verbatim>\<open>for\<close> loop of \<^verbatim>\<open>find_free_block\<close>, from class \<open>i\<close> upwards.\<close>

function find_from_class :: "allocator \<Rightarrow> size_t \<Rightarrow> nat \<Rightarrow> addr option" where
  "find_from_class s sz i =
     (if i < NUM_SIZE_CLASSES then
        (case find_in_list s sz (free_lists s i) of
           None \<Rightarrow> None
         | Some found \<Rightarrow> if found \<noteq> NULL then Some found else find_from_class s sz (i + 1))
      else Some NULL)"
  by pat_completeness auto
termination
  by (relation "measure (\<lambda>(s, sz, i). NUM_SIZE_CLASSES - i)") auto

definition find_free_block :: "size_t \<Rightarrow> allocator \<Rightarrow> addr option" where
  "find_free_block sz s = find_from_class s sz (get_size_class sz)"

definition count_allocation :: "size_t \<Rightarrow> allocator \<Rightarrow> allocator" where
  "count_allocation n s =
     s\<lparr>stats := (stats s)\<lparr>total_allocated := total_allocated (stats s) + n,
                          current_usage := current_usage (stats s) + n,
                          num_allocations := num_allocations (stats s) + 1\<rparr>\<rparr>"

definition count_free :: "size_t \<Rightarrow> allocator \<Rightarrow> allocator" where
  "count_free n s =
     s\<lparr>stats := (stats s)\<lparr>total_freed := total_freed (stats s) + n,
                          current_usage := current_usage (stats s) - n,
                          num_frees := num_frees (stats s) + 1\<rparr>\<rparr>"

text \<open>
  \<^verbatim>\<open>mem_malloc\<close>. The result is the returned pointer and the state; \<open>None\<close> when the search
  of the free lists does not return.
\<close>

definition mem_malloc :: "size_t \<Rightarrow> allocator \<Rightarrow> (addr \<times> allocator) option" where
  "mem_malloc sz s =
     (if sz = 0 then Some (NULL, s)
      else
        let total_size = align_size (sz + sizeof_block_header_t) in
        if total_size \<ge> MMAP_THRESHOLD then
          let (ptr, s1) = mmap_anon total_size s in
          if ptr = MAP_FAILED then Some (NULL, s1)
          else
            let block = ptr;
                s2 = set_size block total_size s1;
                s3 = set_is_free block 0 s2;
                s4 = set_is_mmap block 1 s3;
                s5 = set_next block NULL s4;
                s6 = set_prev block NULL s5;
                s7 = count_allocation total_size s6
            in Some (block + sizeof_block_header_t, s7)
        else
          case find_free_block total_size s of
            None \<Rightarrow> None
          | Some found \<Rightarrow>
              let (block, s1) = (if found = NULL then expand_heap total_size s else (found, s)) in
              if block = NULL then Some (NULL, s1)
              else
                let s2 = remove_from_free_list block s1;
                    s3 = split_block block sz s2;
                    s4 = set_is_free block 0 s3;
                    s5 = count_allocation (size_b (hdr s4 block)) s4
                in Some (block + sizeof_block_header_t, s5))"

text \<open>\<^verbatim>\<open>mem_free\<close>; \<open>None\<close> when \<^verbatim>\<open>coalesce\<close> does not return.\<close>

definition mem_free :: "addr \<Rightarrow> allocator \<Rightarrow> allocator option" where
  "mem_free ptr s =
     (if ptr = NULL then Some s
      else
        let block = ptr - sizeof_block_header_t in
        if is_mmap (hdr s block) \<noteq> 0 then
          let s1 = count_free (size_b (hdr s block)) s
          in Some (munmap block (size_b (hdr s1 block)) s1)
        else
          let s1 = count_free (size_b (hdr s block)) s;
              s2 = set_is_free block 1 s1
          in case coalesce block s2 of
               None \<Rightarrow> None
             | Some (merged, s3) \<Rightarrow> Some (add_to_free_list merged s3))"

section \<open>Payload accesses\<close>

text \<open>
  \<^verbatim>\<open>memset\<close> and \<^verbatim>\<open>memcpy\<close> are the only places where the allocator itself writes payload
  bytes; both are called with payload addresses (a block address plus the header size).
  An access of \<open>n\<close> bytes at payload address \<open>p\<close> stays inside the block when
  \<open>n + sizeof(block_header_t)\<close> does not exceed the block's \<^verbatim>\<open>size\<close>. An access that
  runs past the end of the block overwrites the headers that follow it or leaves the
  memory the process owns; C gives it no meaning, and it is the error \<open>OutOfBounds\<close>.
\<close>

datatype error = OutOfBounds

definition in_payload :: "allocator \<Rightarrow> addr \<Rightarrow> size_t \<Rightarrow> bool" where
  "in_payload s p n =
     (unat n + unat sizeof_block_header_t \<le> unat (size_b (hdr s (p - sizeof_block_header_t))))"

definition memset :: "addr \<Rightarrow> 8 word \<Rightarrow> size_t \<Rightarrow> allocator \<Rightarrow> error + allocator" where
  "memset p c n s =
     (if n = 0 \<or> in_payload s p n
      then Inr (s\<lparr>bytes := (\<lambda>a. if a - p < n then c else bytes s a)\<rparr>)
      else Inl OutOfBounds)"

definition memcpy :: "addr \<Rightarrow> addr \<Rightarrow> size_t \<Rightarrow> allocator \<Rightarrow> error + allocator" where
  "memcpy dst src n s =
     (if n = 0 \<or> (in_payload s src n \<and> in_payload s dst n)
      then Inr (s\<lparr>bytes := (\<lambda>a. if a - dst < n then bytes s (src + (a - dst)) else bytes s a)\<rparr>)
      else Inl OutOfBounds)"

section \<open>The other public operations\<close>

text \<open>
  \<^verbatim>\<open>mem_calloc\<close> and \<^verbatim>\<open>mem_realloc\<close>: \<open>None\<close> when a call they make does not return,
  \<open>Some (Inl OutOfBounds)\<close> when their \<^verbatim>\<open>memset\<close> or \<^verbatim>\<open>memcpy\<close> leaves the block, otherwise
  the returned pointer and the state.
\<close>

definition mem_calloc :: "size_t \<Rightarrow> size_t \<Rightarrow> allocator \<Rightarrow> (error + addr \<times> allocator) option" where
  "mem_calloc nmemb sz s =
     (if nmemb = 0 \<or> sz = 0 then Some (Inr (NULL, s))
      else
        let total = nmemb * sz in
        if total div nmemb \<noteq> sz then Some (Inr (NULL, s))
        else
          case mem_malloc total s of
            None \<Rightarrow> None
          | Some (ptr, s1) \<Rightarrow>
              if ptr \<noteq> NULL then
                (case memset ptr 0 total s1 of
                   Inl e \<Rightarrow> Some (Inl e)
                 | Inr s2 \<Rightarrow> Some (Inr (ptr, s2)))
              else Some (Inr (ptr, s1)))"

definition mem_realloc :: "addr \<Rightarrow> size_t \<Rightarrow> allocator \<Rightarrow> (error + addr \<times> allocator) option" where
  "mem_realloc ptr sz s =
     (if ptr = NULL then map_option Inr (mem_malloc sz s)
      else if sz = 0 then map_option (\<lambda>s1. Inr (NULL, s1)) (mem_free ptr s)
      else
        let block = ptr - sizeof_block_header_t;
            old_size = size_b (hdr s block) - sizeof_block_header_t in
        if old_size \<ge> sz then Some (Inr (ptr, s))
        else
          case mem_malloc sz s of
            None \<Rightarrow> None
          | Some (new_ptr, s1) \<Rightarrow>
              if new_ptr = NULL then Some (Inr (NULL, s1))
              else
                (case memcpy new_ptr ptr old_size s1 of
                   Inl e \<Rightarrow> Some (Inl e)
                 | Inr s2 \<Rightarrow> map_option (\<lambda>s3. Inr (new_ptr, s3)) (mem_free ptr s2)))"

definition mem_get_stats :: "allocator \<Rightarrow> mem_stats_t" where
  "mem_get_stats s = stats s"

definition zero_stats :: mem_stats_t where
  "zero_stats = \<lparr>total_allocated = 0, total_freed = 0, current_usage = 0,
     num_allocations = 0, num_frees = 0, num_splits = 0, num_coalesces = 0\<rparr>"

text \<open>\<^verbatim>\<open>mem_reset\<close>: the heap bounds, the memory and the break stay as they are.\<close>

definition mem_reset :: "allocator \<Rightarrow> allocator" where
  "mem_reset s =
     s\<lparr>stats := zero_stats,
       free_lists := (\<lambda>i. if i < NUM_SIZE_CLASSES then NULL else free_lists s i)\<rparr>"

section \<open>Starting states\<close>

text \<open>
  The state at program start, from the static initialisers of \<^verbatim>\<open>allocator.c\<close>: ten null
  list heads, zero counters, null heap bounds. What the memory holds and what the
  operating system will do are parameters.
\<close>

definition initial_state ::
  "(addr \<Rightarrow> block_header) \<Rightarrow> (addr \<Rightarrow> 8 word) \<Rightarrow> addr \<Rightarrow> addr \<Rightarrow> addr list \<Rightarrow> allocator" where
  "initial_state h b brk0 limit answers =
     \<lparr>free_lists = (\<lambda>i. NULL), stats = zero_stats, heap_start = NULL, heap_end = NULL,
      hdr = h, bytes = b, brk = brk0, brk_limit = limit, mmap_answers = answers,
      mappings = []\<rparr>"

definition zero_header :: block_header where
  "zero_header = \<lparr>size_b = 0, next_b = 0, prev_b = 0, is_free = 0, is_mmap = 0\<rparr>"

text \<open>
  A concrete process for the scenarios: zero-filled memory, the break at \<open>0x10000000\<close>
  with 16 MiB of room above it, and a system that grants two mappings.
\<close>

definition fresh_process :: allocator where
  "fresh_process =
     initial_state (\<lambda>a. zero_header) (\<lambda>a. 0) 0x10000000 0x11000000
       [0x7F0000000000, 0x7F0000100000]"

text \<open>
  A process with no room to spare: the break can rise by exactly one heap increment
  (64 KiB) and the system grants no mapping.
\<close>

definition tight_process :: allocator where
  "tight_process = initial_state (\<lambda>a. zero_header) (\<lambda>a. 0) 0x10000000 0x10010000 []"

section \<open>Notions the properties are stated with\<close>

text \<open>\<^verbatim>\<open>SIZE_MAX\<close>, the largest \<^verbatim>\<open>size_t\<close>.\<close>

definition SIZE_MAX :: size_t where
  "SIZE_MAX = - 1"

text \<open>
  The block that starts where block \<open>b\<close> ends lies in the heap region and is free and not
  mapped. These are the tests of \<^verbatim>\<open>coalesce\<close>: it merges exactly when they hold.
\<close>

definition followed_by_free :: "allocator \<Rightarrow> addr \<Rightarrow> bool" where
  "followed_by_free s b =
     (let next_block = b + size_b (hdr s b) in
      heap_start s \<le> next_block \<and> next_block < heap_end s \<and>
      next_block + sizeof_block_header_t \<le> heap_end s \<and>
      is_free (hdr s next_block) \<noteq> 0 \<and> is_mmap (hdr s next_block) = 0)"

text \<open>One round of \<^verbatim>\<open>coalesce\<close>: the follower is unlinked and its size added.\<close>

definition merge_next :: "addr \<Rightarrow> allocator \<Rightarrow> allocator" where
  "merge_next block s =
     (let next_block = block + size_b (hdr s block);
          s1 = remove_from_free_list next_block s;
          s2 = set_size block (size_b (hdr s1 block) + size_b (hdr s1 next_block)) s1
      in inc_coalesces s2)"

text \<open>
  What a call of \<^verbatim>\<open>coalesce\<close> that returns \<open>y\<close> has done: it returns the block it was given,
  touches neither the heap bounds, the payload, the system nor the byte and call
  counters, leaves every \<^verbatim>\<open>is_free\<close> and \<^verbatim>\<open>is_mmap\<close> flag as it was, and stops only when the
  block is not followed by a free one.
\<close>

definition coalesce_post :: "addr \<Rightarrow> allocator \<Rightarrow> addr \<times> allocator \<Rightarrow> bool" where
  "coalesce_post b s y =
     (fst y = b \<and>
      heap_start (snd y) = heap_start s \<and> heap_end (snd y) = heap_end s \<and>
      bytes (snd y) = bytes s \<and> brk (snd y) = brk s \<and> brk_limit (snd y) = brk_limit s \<and>
      mmap_answers (snd y) = mmap_answers s \<and> mappings (snd y) = mappings s \<and>
      total_allocated (stats (snd y)) = total_allocated (stats s) \<and>
      total_freed (stats (snd y)) = total_freed (stats s) \<and>
      current_usage (stats (snd y)) = current_usage (stats s) \<and>
      num_allocations (stats (snd y)) = num_allocations (stats s) \<and>
      num_frees (stats (snd y)) = num_frees (stats s) \<and>
      num_splits (stats (snd y)) = num_splits (stats s) \<and>
      (\<forall>a. is_free (hdr (snd y) a) = is_free (hdr s a)) \<and>
      (\<forall>a. is_mmap (hdr (snd y) a) = is_mmap (hdr s a)) \<and>
      (b \<noteq> NULL \<and> is_mmap (hdr s b) = 0 \<longrightarrow> \<not> followed_by_free (snd y) b))"

text \<open>
  Membership in a free list: \<open>list_reaches s a b\<close> holds when the walk along \<^verbatim>\<open>next\<close>
  pointers that starts at \<open>a\<close> comes to block \<open>b\<close> before it comes to a null pointer, and
  a block is on a free list when the walk from one of the ten heads reaches it.
\<close>

inductive list_reaches :: "allocator \<Rightarrow> addr \<Rightarrow> addr \<Rightarrow> bool" for s :: allocator where
  here: "a \<noteq> NULL \<Longrightarrow> list_reaches s a a"
| further: "a \<noteq> NULL \<Longrightarrow> list_reaches s (next_b (hdr s a)) b \<Longrightarrow> list_reaches s a b"

definition on_free_list :: "allocator \<Rightarrow> addr \<Rightarrow> bool" where
  "on_free_list s b = (\<exists>i < NUM_SIZE_CLASSES. list_reaches s (free_lists s i) b)"

text \<open>The block at \<open>b\<close> is free, not mapped, and reaches at least to the address \<open>e\<close>.\<close>

definition spans :: "allocator \<Rightarrow> addr \<Rightarrow> addr \<Rightarrow> bool" where
  "spans s b e =
     (is_free (hdr s b) \<noteq> 0 \<and> is_mmap (hdr s b) = 0 \<and>
      unat e \<le> unat b + unat (size_b (hdr s b)))"

text \<open>
  Sequences of calls of the public operations. \<open>perform\<close> gives the state after a call
  that returns; \<open>None\<close> when the call does not return or leaves its block.
\<close>

datatype request =
  Malloc size_t
| Free addr
| Calloc size_t size_t
| Realloc addr size_t
| Reset

fun perform :: "request \<Rightarrow> allocator \<Rightarrow> allocator option" where
  "perform (Malloc n) s = map_option snd (mem_malloc n s)"
| "perform (Free p) s = mem_free p s"
| "perform (Calloc n m) s =
     (case mem_calloc n m s of Some (Inr (p, s1)) \<Rightarrow> Some s1 | _ \<Rightarrow> None)"
| "perform (Realloc p n) s =
     (case mem_realloc p n s of Some (Inr (q, s1)) \<Rightarrow> Some s1 | _ \<Rightarrow> None)"
| "perform Reset s = Some (mem_reset s)"

fun run :: "request list \<Rightarrow> allocator \<Rightarrow> allocator option" where
  "run [] s = Some s"
| "run (r # rs) s = (case perform r s of None \<Rightarrow> None | Some s1 \<Rightarrow> run rs s1)"

text \<open>The identity between the three byte counters.\<close>

definition usage_identity :: "allocator \<Rightarrow> bool" where
  "usage_identity s =
     (current_usage (stats s) = total_allocated (stats s) - total_freed (stats s))"

section \<open>The states of the scenarios\<close>

text \<open>
  The scenarios run in \<open>fresh_process\<close>, whose heap starts at \<open>0x10000000\<close>. Each state
  below is written out in full; the lemmas \<open>step_\<dots>\<close> show that the code produces it.
\<close>

text \<open>The state after \<^verbatim>\<open>a = mem_malloc(100)\<close> in the fresh process.\<close>

definition heap_1 :: allocator where
  "heap_1 =
     \<lparr>free_lists = (\<lambda>i. 0)(9 := 0x10000090),
      stats = \<lparr>total_allocated = 144, total_freed = 0, current_usage = 144,
         num_allocations = 1, num_frees = 0, num_splits = 1, num_coalesces = 0\<rparr>,
      heap_start = 0x10000000, heap_end = 0x10010000,
      hdr = (\<lambda>a. zero_header)
        (0x10000090 := \<lparr>size_b = 65392, next_b = 0, prev_b = 0, is_free = 1, is_mmap = 0\<rparr>,
         0x10000000 := \<lparr>size_b = 144, next_b = 0, prev_b = 0, is_free = 0, is_mmap = 0\<rparr>),
      bytes = \<lambda>a. 0, brk = 0x10010000, brk_limit = 0x11000000,
      mmap_answers = [0x7F0000000000, 0x7F0000100000], mappings = []\<rparr>"

text \<open>The state after the next call, \<^verbatim>\<open>b = mem_malloc(100)\<close>.\<close>

definition heap_2 :: allocator where
  "heap_2 =
     \<lparr>free_lists = (\<lambda>i. 0)(9 := 0x10000120),
      stats = \<lparr>total_allocated = 288, total_freed = 0, current_usage = 288,
         num_allocations = 2, num_frees = 0, num_splits = 2, num_coalesces = 0\<rparr>,
      heap_start = 0x10000000, heap_end = 0x10010000,
      hdr = (\<lambda>a. zero_header)
        (0x10000000 := \<lparr>size_b = 144, next_b = 0, prev_b = 0, is_free = 0, is_mmap = 0\<rparr>,
         0x10000120 := \<lparr>size_b = 65248, next_b = 0, prev_b = 0, is_free = 1, is_mmap = 0\<rparr>,
         0x10000090 := \<lparr>size_b = 144, next_b = 0, prev_b = 0, is_free = 0, is_mmap = 0\<rparr>),
      bytes = \<lambda>a. 0, brk = 0x10010000, brk_limit = 0x11000000,
      mmap_answers = [0x7F0000000000, 0x7F0000100000], mappings = []\<rparr>"

text \<open>The state after the next call, \<^verbatim>\<open>c = mem_malloc(100)\<close>.\<close>

definition heap_3 :: allocator where
  "heap_3 =
     \<lparr>free_lists = (\<lambda>i. 0)(9 := 0x100001B0),
      stats = \<lparr>total_allocated = 432, total_freed = 0, current_usage = 432,
         num_allocations = 3, num_frees = 0, num_splits = 3, num_coalesces = 0\<rparr>,
      heap_start = 0x10000000, heap_end = 0x10010000,
      hdr = (\<lambda>a. zero_header)
        (0x10000000 := \<lparr>size_b = 144, next_b = 0, prev_b = 0, is_free = 0, is_mmap = 0\<rparr>,
         0x10000090 := \<lparr>size_b = 144, next_b = 0, prev_b = 0, is_free = 0, is_mmap = 0\<rparr>,
         0x100001B0 := \<lparr>size_b = 65104, next_b = 0, prev_b = 0, is_free = 1, is_mmap = 0\<rparr>,
         0x10000120 := \<lparr>size_b = 144, next_b = 0, prev_b = 0, is_free = 0, is_mmap = 0\<rparr>),
      bytes = \<lambda>a. 0, brk = 0x10010000, brk_limit = 0x11000000,
      mmap_answers = [0x7F0000000000, 0x7F0000100000], mappings = []\<rparr>"

text \<open>The state after the next call, \<^verbatim>\<open>mem_free(b)\<close>, the middle block.\<close>

definition coalesce_4 :: allocator where
  "coalesce_4 =
     \<lparr>free_lists = (\<lambda>i. 0)(9 := 0x100001B0, 3 := 0x10000090),
      stats = \<lparr>total_allocated = 432, total_freed = 144, current_usage = 288,
         num_allocations = 3, num_frees = 1, num_splits = 3, num_coalesces = 0\<rparr>,
      heap_start = 0x10000000, heap_end = 0x10010000,
      hdr = (\<lambda>a. zero_header)
        (0x10000000 := \<lparr>size_b = 144, next_b = 0, prev_b = 0, is_free = 0, is_mmap = 0\<rparr>,
         0x100001B0 := \<lparr>size_b = 65104, next_b = 0, prev_b = 0, is_free = 1, is_mmap = 0\<rparr>,
         0x10000120 := \<lparr>size_b = 144, next_b = 0, prev_b = 0, is_free = 0, is_mmap = 0\<rparr>,
         0x10000090 := \<lparr>size_b = 144, next_b = 0, prev_b = 0, is_free = 1, is_mmap = 0\<rparr>),
      bytes = \<lambda>a. 0, brk = 0x10010000, brk_limit = 0x11000000,
      mmap_answers = [0x7F0000000000, 0x7F0000100000], mappings = []\<rparr>"

text \<open>The state after the next call, \<^verbatim>\<open>mem_free(a)\<close>, the first block.\<close>

definition coalesce_5 :: allocator where
  "coalesce_5 =
     \<lparr>free_lists = (\<lambda>i. 0)(9 := 0x100001B0, 3 := 0, 4 := 0x10000000),
      stats = \<lparr>total_allocated = 432, total_freed = 288, current_usage = 144,
         num_allocations = 3, num_frees = 2, num_splits = 3, num_coalesces = 1\<rparr>,
      heap_start = 0x10000000, heap_end = 0x10010000,
      hdr = (\<lambda>a. zero_header)
        (0x100001B0 := \<lparr>size_b = 65104, next_b = 0, prev_b = 0, is_free = 1, is_mmap = 0\<rparr>,
         0x10000120 := \<lparr>size_b = 144, next_b = 0, prev_b = 0, is_free = 0, is_mmap = 0\<rparr>,
         0x10000090 := \<lparr>size_b = 144, next_b = 0, prev_b = 0, is_free = 1, is_mmap = 0\<rparr>,
         0x10000000 := \<lparr>size_b = 288, next_b = 0, prev_b = 0, is_free = 1, is_mmap = 0\<rparr>),
      bytes = \<lambda>a. 0, brk = 0x10010000, brk_limit = 0x11000000,
      mmap_answers = [0x7F0000000000, 0x7F0000100000], mappings = []\<rparr>"

text \<open>The state after the next call, \<^verbatim>\<open>mem_free(c)\<close>, the last block.\<close>

definition coalesce_6 :: allocator where
  "coalesce_6 =
     \<lparr>free_lists = (\<lambda>i. 0)(3 := 0, 4 := 0x10000000, 9 := 0x10000120),
      stats = \<lparr>total_allocated = 432, total_freed = 432, current_usage = 0,
         num_allocations = 3, num_frees = 3, num_splits = 3, num_coalesces = 2\<rparr>,
      heap_start = 0x10000000, heap_end = 0x10010000,
      hdr = (\<lambda>a. zero_header)
        (0x10000090 := \<lparr>size_b = 144, next_b = 0, prev_b = 0, is_free = 1, is_mmap = 0\<rparr>,
         0x10000000 := \<lparr>size_b = 288, next_b = 0, prev_b = 0, is_free = 1, is_mmap = 0\<rparr>,
         0x100001B0 := \<lparr>size_b = 65104, next_b = 0, prev_b = 0, is_free = 1, is_mmap = 0\<rparr>,
         0x10000120 := \<lparr>size_b = 65248, next_b = 0, prev_b = 0, is_free = 1, is_mmap = 0\<rparr>),
      bytes = \<lambda>a. 0, brk = 0x10010000, brk_limit = 0x11000000,
      mmap_answers = [0x7F0000000000, 0x7F0000100000], mappings = []\<rparr>"

text \<open>The state after \<^verbatim>\<open>a = mem_malloc(100); b = mem_malloc(100); mem_free(a)\<close>.\<close>

definition adjacent_3 :: allocator where
  "adjacent_3 =
     \<lparr>free_lists = (\<lambda>i. 0)(9 := 0x10000120, 3 := 0x10000000),
      stats = \<lparr>total_allocated = 288, total_freed = 144, current_usage = 144,
         num_allocations = 2, num_frees = 1, num_splits = 2, num_coalesces = 0\<rparr>,
      heap_start = 0x10000000, heap_end = 0x10010000,
      hdr = (\<lambda>a. zero_header)
        (0x10000120 := \<lparr>size_b = 65248, next_b = 0, prev_b = 0, is_free = 1, is_mmap = 0\<rparr>,
         0x10000090 := \<lparr>size_b = 144, next_b = 0, prev_b = 0, is_free = 0, is_mmap = 0\<rparr>,
         0x10000000 := \<lparr>size_b = 144, next_b = 0, prev_b = 0, is_free = 1, is_mmap = 0\<rparr>),
      bytes = \<lambda>a. 0, brk = 0x10010000, brk_limit = 0x11000000,
      mmap_answers = [0x7F0000000000, 0x7F0000100000], mappings = []\<rparr>"

text \<open>The state after the next call, \<^verbatim>\<open>mem_free(b)\<close>.\<close>

definition adjacent_4 :: allocator where
  "adjacent_4 =
     \<lparr>free_lists = (\<lambda>i. 0)(3 := 0x10000000, 9 := 0x10000090),
      stats = \<lparr>total_allocated = 288, total_freed = 288, current_usage = 0,
         num_allocations = 2, num_frees = 2, num_splits = 2, num_coalesces = 1\<rparr>,
      heap_start = 0x10000000, heap_end = 0x10010000,
      hdr = (\<lambda>a. zero_header)
        (0x10000000 := \<lparr>size_b = 144, next_b = 0, prev_b = 0, is_free = 1, is_mmap = 0\<rparr>,
         0x10000120 := \<lparr>size_b = 65248, next_b = 0, prev_b = 0, is_free = 1, is_mmap = 0\<rparr>,
         0x10000090 := \<lparr>size_b = 65392, next_b = 0, prev_b = 0, is_free = 1, is_mmap = 0\<rparr>),
      bytes = \<lambda>a. 0, brk = 0x10010000, brk_limit = 0x11000000,
      mmap_answers = [0x7F0000000000, 0x7F0000100000], mappings = []\<rparr>"

text \<open>The state after \<^verbatim>\<open>a = mem_malloc(100); mem_free(a)\<close>.\<close>

definition split_2 :: allocator where
  "split_2 =
     \<lparr>free_lists = (\<lambda>i. 0)(9 := 0x10000000),
      stats = \<lparr>total_allocated = 144, total_freed = 144, current_usage = 0,
         num_allocations = 1, num_frees = 1, num_splits = 1, num_coalesces = 1\<rparr>,
      heap_start = 0x10000000, heap_end = 0x10010000,
      hdr = (\<lambda>a. zero_header)
        (0x10000090 := \<lparr>size_b = 65392, next_b = 0, prev_b = 0, is_free = 1, is_mmap = 0\<rparr>,
         0x10000000 := \<lparr>size_b = 65536, next_b = 0, prev_b = 0, is_free = 1, is_mmap = 0\<rparr>),
      bytes = \<lambda>a. 0, brk = 0x10010000, brk_limit = 0x11000000,
      mmap_answers = [0x7F0000000000, 0x7F0000100000], mappings = []\<rparr>"

text \<open>The state after the next call, \<^verbatim>\<open>mem_malloc(50)\<close>.\<close>

definition split_3 :: allocator where
  "split_3 =
     \<lparr>free_lists = (\<lambda>i. 0)(9 := 0x10000060),
      stats = \<lparr>total_allocated = 240, total_freed = 144, current_usage = 96,
         num_allocations = 2, num_frees = 1, num_splits = 2, num_coalesces = 1\<rparr>,
      heap_start = 0x10000000, heap_end = 0x10010000,
      hdr = (\<lambda>a. zero_header)
        (0x10000090 := \<lparr>size_b = 65392, next_b = 0, prev_b = 0, is_free = 1, is_mmap = 0\<rparr>,
         0x10000060 := \<lparr>size_b = 65440, next_b = 0, prev_b = 0, is_free = 1, is_mmap = 0\<rparr>,
         0x10000000 := \<lparr>size_b = 96, next_b = 0, prev_b = 0, is_free = 0, is_mmap = 0\<rparr>),
      bytes = \<lambda>a. 0, brk = 0x10010000, brk_limit = 0x11000000,
      mmap_answers = [0x7F0000000000, 0x7F0000100000], mappings = []\<rparr>"

text \<open>The state after \<^verbatim>\<open>mem_malloc(100); mem_malloc(70000)\<close>.\<close>

definition lost_2 :: allocator where
  "lost_2 =
     \<lparr>free_lists = (\<lambda>i. 0)(9 := 0),
      stats = \<lparr>total_allocated = 70176, total_freed = 0, current_usage = 70176,
         num_allocations = 2, num_frees = 0, num_splits = 1, num_coalesces = 0\<rparr>,
      heap_start = 0x10000000, heap_end = 0x10021190,
      hdr = (\<lambda>a. zero_header)
        (0x10000090 := \<lparr>size_b = 65392, next_b = 0, prev_b = 0, is_free = 1, is_mmap = 0\<rparr>,
         0x10000000 := \<lparr>size_b = 144, next_b = 0, prev_b = 0, is_free = 0, is_mmap = 0\<rparr>,
         0x10010000 := \<lparr>size_b = 70032, next_b = 0, prev_b = 0, is_free = 0, is_mmap = 0\<rparr>),
      bytes = \<lambda>a. 0, brk = 0x10021190, brk_limit = 0x11000000,
      mmap_answers = [0x7F0000000000, 0x7F0000100000], mappings = []\<rparr>"

text \<open>The state after \<^verbatim>\<open>p = mem_malloc(SIZE_MAX)\<close> in the fresh process.\<close>

definition wrapped_1 :: allocator where
  "wrapped_1 =
     \<lparr>free_lists = (\<lambda>i. 0)(9 := 0x10000020),
      stats = \<lparr>total_allocated = 32, total_freed = 0, current_usage = 32,
         num_allocations = 1, num_frees = 0, num_splits = 1, num_coalesces = 0\<rparr>,
      heap_start = 0x10000000, heap_end = 0x10010000,
      hdr = (\<lambda>a. zero_header)
        (0x10000020 := \<lparr>size_b = 65504, next_b = 0, prev_b = 0, is_free = 1, is_mmap = 0\<rparr>,
         0x10000000 := \<lparr>size_b = 32, next_b = 0, prev_b = 0, is_free = 0, is_mmap = 0\<rparr>),
      bytes = \<lambda>a. 0, brk = 0x10010000, brk_limit = 0x11000000,
      mmap_answers = [0x7F0000000000, 0x7F0000100000], mappings = []\<rparr>"

text \<open>The state after the next call, \<^verbatim>\<open>mem_realloc(p, 1)\<close>.\<close>

definition wrapped_2 :: allocator where
  "wrapped_2 =
     \<lparr>free_lists = (\<lambda>i. 0)(9 := 0x10000050, 0 := 0x10000000),
      stats = \<lparr>total_allocated = 80, total_freed = 32, current_usage = 48,
         num_allocations = 2, num_frees = 1, num_splits = 2, num_coalesces = 0\<rparr>,
      heap_start = 0x10000000, heap_end = 0x10010000,
      hdr = (\<lambda>a. zero_header)
        (0x10000050 := \<lparr>size_b = 65456, next_b = 0, prev_b = 0, is_free = 1, is_mmap = 0\<rparr>,
         0x10000020 := \<lparr>size_b = 48, next_b = 0, prev_b = 0, is_free = 0, is_mmap = 0\<rparr>,
         0x10000000 := \<lparr>size_b = 32, next_b = 0, prev_b = 0, is_free = 1, is_mmap = 0\<rparr>),
      bytes = \<lambda>a. 0, brk = 0x10010000, brk_limit = 0x11000000,
      mmap_answers = [0x7F0000000000, 0x7F0000100000], mappings = []\<rparr>"



text \<open>The state after \<^verbatim>\<open>mem_malloc(100)\<close> in the tight process.\<close>

definition tight_1 :: allocator where
  "tight_1 =
     \<lparr>free_lists = (\<lambda>i. 0)(9 := 0x10000090),
      stats = \<lparr>total_allocated = 144, total_freed = 0, current_usage = 144,
         num_allocations = 1, num_frees = 0, num_splits = 1, num_coalesces = 0\<rparr>,
      heap_start = 0x10000000, heap_end = 0x10010000,
      hdr = (\<lambda>a. zero_header)
        (0x10000090 := \<lparr>size_b = 65392, next_b = 0, prev_b = 0, is_free = 1, is_mmap = 0\<rparr>,
         0x10000000 := \<lparr>size_b = 144, next_b = 0, prev_b = 0, is_free = 0, is_mmap = 0\<rparr>),
      bytes = \<lambda>a. 0, brk = 0x10010000, brk_limit = 0x10010000,
      mmap_answers = [], mappings = []\<rparr>"

subsection \<open>The scenarios from any reset state\<close>

text \<open>
  The scenarios of the coalesce and split counters start with \<^verbatim>\<open>mem_reset\<close>, in any state
  of the process. \<open>reset_ready s\<close> is what they need of that state: the break is not null,
  the system grants one more heap increment of 64 KiB, and the heap region recorded so
  far does not start above the break (\<^verbatim>\<open>heap_start\<close> is null before the first extension).
  After the reset all ten lists are empty, so the first allocation extends the heap at
  the break \<open>brk s\<close>, and every block of the scenario lies in those 64 KiB. The states
  below give the allocator after each call; the fields not listed are those of \<open>s\<close>.
\<close>

definition reset_ready :: "allocator \<Rightarrow> bool" where
  "reset_ready s =
     (brk s \<noteq> NULL \<and> unat (brk s) + unat BRK_INCREMENT \<le> unat (brk_limit s) \<and>
      heap_start s \<le> brk s)"

text \<open>
  After \<^verbatim>\<open>a = mem_malloc(100)\<close> in the reset state: the heap has grown by 64 KiB at the
  old break, the block of \<open>a\<close> is its first 144 bytes, and the rest is the free block at
  the head of list 9.
\<close>

definition grown_1 :: "allocator \<Rightarrow> allocator" where
  "grown_1 s =
     s\<lparr>free_lists :=
         (\<lambda>i. if i < NUM_SIZE_CLASSES then NULL else free_lists s i)
         (9 := brk s + 144),
       stats :=
         \<lparr>total_allocated = 144, total_freed = 0, current_usage = 144,
           num_allocations = 1, num_frees = 0, num_splits = 1, num_coalesces = 0\<rparr>,
       heap_start := (if heap_start s = NULL then brk s else heap_start s),
       heap_end := brk s + 65536,
       hdr :=
         (hdr s)
         (brk s + 144 := \<lparr>size_b = 65392, next_b = 0, prev_b = 0, is_free = 1, is_mmap = 0\<rparr>,
          brk s := \<lparr>size_b = 144, next_b = 0, prev_b = 0, is_free = 0, is_mmap = 0\<rparr>),
       brk := brk s + 65536\<rparr>"

text \<open>After the next call, \<^verbatim>\<open>b = mem_malloc(100)\<close>.\<close>

definition grown_2 :: "allocator \<Rightarrow> allocator" where
  "grown_2 s =
     s\<lparr>free_lists :=
         (\<lambda>i. if i < NUM_SIZE_CLASSES then NULL else free_lists s i)
         (9 := brk s + 288),
       stats :=
         \<lparr>total_allocated = 288, total_freed = 0, current_usage = 288,
           num_allocations = 2, num_frees = 0, num_splits = 2, num_coalesces = 0\<rparr>,
       heap_start := (if heap_start s = NULL then brk s else heap_start s),
       heap_end := brk s + 65536,
       hdr :=
         (hdr s)
         (brk s := \<lparr>size_b = 144, next_b = 0, prev_b = 0, is_free = 0, is_mmap = 0\<rparr>,
          brk s + 288 := \<lparr>size_b = 65248, next_b = 0, prev_b = 0, is_free = 1, is_mmap = 0\<rparr>,
          brk s + 144 := \<lparr>size_b = 144, next_b = 0, prev_b = 0, is_free = 0, is_mmap = 0\<rparr>),
       brk := brk s + 65536\<rparr>"

text \<open>After the next call, \<^verbatim>\<open>c = mem_malloc(100)\<close>.\<close>

definition grown_3 :: "allocator \<Rightarrow> allocator" where
  "grown_3 s =
     s\<lparr>free_lists :=
         (\<lambda>i. if i < NUM_SIZE_CLASSES then NULL else free_lists s i)
         (9 := brk s + 432),
       stats :=
         \<lparr>total_allocated = 432, total_freed = 0, current_usage = 432,
           num_allocations = 3, num_frees = 0, num_splits = 3, num_coalesces = 0\<rparr>,
       heap_start := (if heap_start s = NULL then brk s else heap_start s),
       heap_end := brk s + 65536,
       hdr :=
         (hdr s)
         (brk s := \<lparr>size_b = 144, next_b = 0, prev_b = 0, is_free = 0, is_mmap = 0\<rparr>,
          brk s + 144 := \<lparr>size_b = 144, next_b = 0, prev_b = 0, is_free = 0, is_mmap = 0\<rparr>,
          brk s + 432 := \<lparr>size_b = 65104, next_b = 0, prev_b = 0, is_free = 1, is_mmap = 0\<rparr>,
          brk s + 288 := \<lparr>size_b = 144, next_b = 0, prev_b = 0, is_free = 0, is_mmap = 0\<rparr>),
       brk := brk s + 65536\<rparr>"

text \<open>After the next call, \<^verbatim>\<open>mem_free(b)\<close>, the middle block.\<close>

definition merged_4 :: "allocator \<Rightarrow> allocator" where
  "merged_4 s =
     s\<lparr>free_lists :=
         (\<lambda>i. if i < NUM_SIZE_CLASSES then NULL else free_lists s i)
         (9 := brk s + 432, 3 := brk s + 144),
       stats :=
         \<lparr>total_allocated = 432, total_freed = 144, current_usage = 288,
           num_allocations = 3, num_frees = 1, num_splits = 3, num_coalesces = 0\<rparr>,
       heap_start := (if heap_start s = NULL then brk s else heap_start s),
       heap_end := brk s + 65536,
       hdr :=
         (hdr s)
         (brk s := \<lparr>size_b = 144, next_b = 0, prev_b = 0, is_free = 0, is_mmap = 0\<rparr>,
          brk s + 432 := \<lparr>size_b = 65104, next_b = 0, prev_b = 0, is_free = 1, is_mmap = 0\<rparr>,
          brk s + 288 := \<lparr>size_b = 144, next_b = 0, prev_b = 0, is_free = 0, is_mmap = 0\<rparr>,
          brk s + 144 := \<lparr>size_b = 144, next_b = 0, prev_b = 0, is_free = 1, is_mmap = 0\<rparr>),
       brk := brk s + 65536\<rparr>"

text \<open>After the next call, \<^verbatim>\<open>mem_free(a)\<close>, the first block.\<close>

definition merged_5 :: "allocator \<Rightarrow> allocator" where
  "merged_5 s =
     s\<lparr>free_lists :=
         (\<lambda>i. if i < NUM_SIZE_CLASSES then NULL else free_lists s i)
         (9 := brk s + 432, 3 := 0, 4 := brk s),
       stats :=
         \<lparr>total_allocated = 432, total_freed = 288, current_usage = 144,
           num_allocations = 3, num_frees = 2, num_splits = 3, num_coalesces = 1\<rparr>,
       heap_start := (if heap_start s = NULL then brk s else heap_start s),
       heap_end := brk s + 65536,
       hdr :=
         (hdr s)
         (brk s + 432 := \<lparr>size_b = 65104, next_b = 0, prev_b = 0, is_free = 1, is_mmap = 0\<rparr>,
          brk s + 288 := \<lparr>size_b = 144, next_b = 0, prev_b = 0, is_free = 0, is_mmap = 0\<rparr>,
          brk s + 144 := \<lparr>size_b = 144, next_b = 0, prev_b = 0, is_free = 1, is_mmap = 0\<rparr>,
          brk s := \<lparr>size_b = 288, next_b = 0, prev_b = 0, is_free = 1, is_mmap = 0\<rparr>),
       brk := brk s + 65536\<rparr>"

text \<open>After the next call, \<^verbatim>\<open>mem_free(c)\<close>, the last block.\<close>

definition merged_6 :: "allocator \<Rightarrow> allocator" where
  "merged_6 s =
     s\<lparr>free_lists :=
         (\<lambda>i. if i < NUM_SIZE_CLASSES then NULL else free_lists s i)
         (3 := 0, 4 := brk s, 9 := brk s + 288),
       stats :=
         \<lparr>total_allocated = 432, total_freed = 432, current_usage = 0,
           num_allocations = 3, num_frees = 3, num_splits = 3, num_coalesces = 2\<rparr>,
       heap_start := (if heap_start s = NULL then brk s else heap_start s),
       heap_end := brk s + 65536,
       hdr :=
         (hdr s)
         (brk s + 144 := \<lparr>size_b = 144, next_b = 0, prev_b = 0, is_free = 1, is_mmap = 0\<rparr>,
          brk s := \<lparr>size_b = 288, next_b = 0, prev_b = 0, is_free = 1, is_mmap = 0\<rparr>,
          brk s + 432 := \<lparr>size_b = 65104, next_b = 0, prev_b = 0, is_free = 1, is_mmap = 0\<rparr>,
          brk s + 288 := \<lparr>size_b = 65248, next_b = 0, prev_b = 0, is_free = 1, is_mmap = 0\<rparr>),
       brk := brk s + 65536\<rparr>"

text \<open>After \<^verbatim>\<open>a = mem_malloc(100); mem_free(a)\<close> in the reset state.\<close>

definition rejoined_2 :: "allocator \<Rightarrow> allocator" where
  "rejoined_2 s =
     s\<lparr>free_lists :=
         (\<lambda>i. if i < NUM_SIZE_CLASSES then NULL else free_lists s i)
         (9 := brk s),
       stats :=
         \<lparr>total_allocated = 144, total_freed = 144, current_usage = 0,
           num_allocations = 1, num_frees = 1, num_splits = 1, num_coalesces = 1\<rparr>,
       heap_start := (if heap_start s = NULL then brk s else heap_start s),
       heap_end := brk s + 65536,
       hdr :=
         (hdr s)
         (brk s + 144 := \<lparr>size_b = 65392, next_b = 0, prev_b = 0, is_free = 1, is_mmap = 0\<rparr>,
          brk s := \<lparr>size_b = 65536, next_b = 0, prev_b = 0, is_free = 1, is_mmap = 0\<rparr>),
       brk := brk s + 65536\<rparr>"

text \<open>After the next call, \<^verbatim>\<open>mem_malloc(50)\<close>.\<close>

definition carved_3 :: "allocator \<Rightarrow> allocator" where
  "carved_3 s =
     s\<lparr>free_lists :=
         (\<lambda>i. if i < NUM_SIZE_CLASSES then NULL else free_lists s i)
         (9 := brk s + 96),
       stats :=
         \<lparr>total_allocated = 240, total_freed = 144, current_usage = 96,
           num_allocations = 2, num_frees = 1, num_splits = 2, num_coalesces = 1\<rparr>,
       heap_start := (if heap_start s = NULL then brk s else heap_start s),
       heap_end := brk s + 65536,
       hdr :=
         (hdr s)
         (brk s + 144 := \<lparr>size_b = 65392, next_b = 0, prev_b = 0, is_free = 1, is_mmap = 0\<rparr>,
          brk s + 96 := \<lparr>size_b = 65440, next_b = 0, prev_b = 0, is_free = 1, is_mmap = 0\<rparr>,
          brk s := \<lparr>size_b = 96, next_b = 0, prev_b = 0, is_free = 0, is_mmap = 0\<rparr>),
       brk := brk s + 65536\<rparr>"

section \<open>Running the code on the scenarios\<close>

lemmas setters =
  set_size_def set_next_def set_prev_def set_is_free_def set_is_mmap_def set_free_list_def

lemmas constants =
  MIN_BLOCK_SIZE_def ALIGNMENT_def NUM_SIZE_CLASSES_def MMAP_THRESHOLD_def BRK_INCREMENT_def
  sizeof_block_header_t_def NULL_def SBRK_FAILED_def MAP_FAILED_def SIZE_MAX_def

text \<open>
  The equations that run the code on a concrete state. A \<^verbatim>\<open>let\<close> is unfolded only once
  its bound value has been computed (\<open>let_weak_cong\<close>), as the program would.
\<close>

lemmas run_simps =
  align_size_def get_size_class_def remove_from_free_list_def add_to_free_list_def
  inc_coalesces_def inc_splits_def split_block_def expand_heap_def find_free_block_def
  find_in_list.simps coalesce.simps count_allocation_def count_free_def
  mem_malloc_def mem_free_def mem_calloc_def mem_realloc_def
  memset_def memcpy_def in_payload_def sbrk_def mmap_anon_def munmap_def
  initial_state_def zero_stats_def zero_header_def
  setters constants Let_def split_def

lemma reset_fresh_process: "mem_reset fresh_process = fresh_process"
  by (simp add: mem_reset_def fresh_process_def initial_state_def zero_stats_def
      NUM_SIZE_CLASSES_def NULL_def fun_eq_iff)

lemma step_heap_1: "mem_malloc 100 fresh_process = Some (0x10000020, heap_1)"
  by (simp add: fresh_process_def heap_1_def run_simps cong: let_weak_cong)

lemma step_heap_2: "mem_malloc 100 heap_1 = Some (0x100000B0, heap_2)"
  by (simp add: heap_1_def heap_2_def run_simps cong: let_weak_cong)

lemma step_heap_3: "mem_malloc 100 heap_2 = Some (0x10000140, heap_3)"
  by (simp add: heap_2_def heap_3_def run_simps cong: let_weak_cong)

lemma step_coalesce_4: "mem_free 0x100000B0 heap_3 = Some coalesce_4"
  by (simp add: heap_3_def coalesce_4_def run_simps cong: let_weak_cong)

lemma step_coalesce_5: "mem_free 0x10000020 coalesce_4 = Some coalesce_5"
  by (simp add: coalesce_4_def coalesce_5_def run_simps cong: let_weak_cong)

lemma step_coalesce_6: "mem_free 0x10000140 coalesce_5 = Some coalesce_6"
  by (simp add: coalesce_5_def coalesce_6_def run_simps cong: let_weak_cong)

lemma step_adjacent_3: "mem_free 0x10000020 heap_2 = Some adjacent_3"
  by (simp add: heap_2_def adjacent_3_def run_simps cong: let_weak_cong)

lemma step_adjacent_4: "mem_free 0x100000B0 adjacent_3 = Some adjacent_4"
  by (simp add: adjacent_3_def adjacent_4_def run_simps cong: let_weak_cong)

lemma step_split_2: "mem_free 0x10000020 heap_1 = Some split_2"
  by (simp add: heap_1_def split_2_def run_simps cong: let_weak_cong)

lemma step_split_3: "mem_malloc 50 split_2 = Some (0x10000020, split_3)"
  by (simp add: split_2_def split_3_def run_simps cong: let_weak_cong)

lemma step_lost_2: "mem_malloc 70000 heap_1 = Some (0x10010020, lost_2)"
  by (simp add: heap_1_def lost_2_def run_simps cong: let_weak_cong)

lemma step_wrapped_1: "mem_malloc (- 1) fresh_process = Some (0x10000020, wrapped_1)"
  by (simp add: fresh_process_def wrapped_1_def run_simps cong: let_weak_cong)

lemma step_wrapped_2: "mem_realloc 0x10000020 1 wrapped_1 = Some (Inr (0x10000040, wrapped_2))"
  by (simp add: wrapped_1_def wrapped_2_def run_simps cong: let_weak_cong)



lemma step_tight_1: "mem_malloc 100 tight_process = Some (0x10000020, tight_1)"
  by (simp add: tight_process_def tight_1_def run_simps cong: let_weak_cong)

lemma step_tight_fails: "mem_malloc 70000 tight_1 = Some (NULL, tight_1)"
  by (simp add: tight_1_def run_simps cong: let_weak_cong)

lemma step_wrapped_calloc: "mem_calloc 1 SIZE_MAX fresh_process = Some (Inl OutOfBounds)"
  by (simp add: fresh_process_def run_simps unat_eq_0 cong: let_weak_cong)

subsection \<open>Running the scenarios from any reset state\<close>

text \<open>
  Addresses are the break plus an offset of at most 64 KiB, and the break has that much
  room below \<open>2^64\<close>: such addresses are not null and compare as their offsets do.
\<close>

lemma offset_unat:
  fixes B c :: addr
  assumes "unat B + 65536 < 2 ^ 64" and "unat c \<le> 65536"
  shows "unat (B + c) = unat B + unat c"
  using assms by (simp add: unat_word_ariths)

lemma offset_eq_0:
  fixes B c :: addr
  assumes "unat B + 65536 < 2 ^ 64" and "unat c \<le> 65536" and "B \<noteq> 0"
  shows "(B + c = 0) = False"
proof -
  from assms(3) have "unat B \<noteq> 0" by (simp add: unat_eq_0)
  with offset_unat [OF assms(1,2)] have "unat (B + c) \<noteq> 0" by simp
  then show ?thesis by (auto simp: unat_eq_0)
qed

lemma offset_le:
  fixes B c d :: addr
  assumes "unat B + 65536 < 2 ^ 64" and "unat c \<le> 65536" and "unat d \<le> 65536"
  shows "(B + c \<le> B + d) = (c \<le> d)"
  using offset_unat [OF assms(1,2)] offset_unat [OF assms(1,3)] by (simp add: word_le_nat_alt)

lemma offset_less:
  fixes B c d :: addr
  assumes "unat B + 65536 < 2 ^ 64" and "unat c \<le> 65536" and "unat d \<le> 65536"
  shows "(B + c < B + d) = (c < d)"
  using offset_unat [OF assms(1,2)] offset_unat [OF assms(1,3)] by (simp add: word_less_nat_alt)

lemma offset_less_base:
  fixes B c hs :: addr
  assumes "unat B + 65536 < 2 ^ 64" and "unat c \<le> 65536" and "hs \<le> B"
  shows "(B + c < hs) = False"
  using offset_unat [OF assms(1,2)] assms(3) by (simp add: word_less_nat_alt word_le_nat_alt)

lemma offset_first:
  fixes B :: addr
  shows "numeral n + B = B + numeral n"
  by simp

lemma header_updates:
  "h\<lparr>size_b := a\<rparr> =
     \<lparr>size_b = a, next_b = next_b h, prev_b = prev_b h, is_free = is_free h, is_mmap = is_mmap h\<rparr>"
  "h\<lparr>next_b := p\<rparr> =
     \<lparr>size_b = size_b h, next_b = p, prev_b = prev_b h, is_free = is_free h, is_mmap = is_mmap h\<rparr>"
  "h\<lparr>prev_b := p\<rparr> =
     \<lparr>size_b = size_b h, next_b = next_b h, prev_b = p, is_free = is_free h, is_mmap = is_mmap h\<rparr>"
  "h\<lparr>is_free := f\<rparr> =
     \<lparr>size_b = size_b h, next_b = next_b h, prev_b = prev_b h, is_free = f, is_mmap = is_mmap h\<rparr>"
  "h\<lparr>is_mmap := f\<rparr> =
     \<lparr>size_b = size_b h, next_b = next_b h, prev_b = prev_b h, is_free = is_free h, is_mmap = f\<rparr>"
  by simp_all

lemma ready_facts:
  assumes "reset_ready s"
  shows "unat (brk s) + 65536 < 2 ^ 64" "brk s \<noteq> 0" "brk s \<noteq> - 1" "heap_start s \<le> brk s"
    "unat (brk s) + 65536 \<le> unat (brk_limit s)" "unat (brk s) \<le> unat (brk_limit s)"
proof -
  from assms have room: "unat (brk s) + 65536 \<le> unat (brk_limit s)"
    by (simp add: reset_ready_def BRK_INCREMENT_def)
  have "unat (brk_limit s) < 2 ^ 64"
    using unsigned_less [of "brk_limit s"] by simp
  with room show "unat (brk s) + 65536 < 2 ^ 64"
    by linarith
  then show "brk s \<noteq> - 1"
    by (auto simp: unsigned_minus_1_eq_mask mask_eq_exp_minus_1)
  from assms show "brk s \<noteq> 0" "heap_start s \<le> brk s"
    by (auto simp: reset_ready_def NULL_def)
  from room show "unat (brk s) + 65536 \<le> unat (brk_limit s)"
    "unat (brk s) \<le> unat (brk_limit s)"
    by simp_all
qed

lemma ready_fresh_process: "reset_ready fresh_process"
  by (simp add: reset_ready_def fresh_process_def initial_state_def constants)

lemma general_grown_1:
  assumes "reset_ready s"
  shows "mem_malloc 100 (mem_reset s) = Some (brk s + 32, grown_1 s)"
proof -
  note f = ready_facts [OF assms]
  note offsets = offset_unat [OF f(1)] offset_eq_0 [OF f(1) _ f(2)] offset_le [OF f(1)]
    offset_less [OF f(1)] offset_less_base [OF f(1) _ f(4)]
    offset_less_base [OF f(1) _ order_refl] offset_first [of _ "brk s"]
  show ?thesis
    by (cases "heap_start s = NULL",
        simp_all add: mem_reset_def grown_1_def run_simps offsets f(2,3,5,6) cong: let_weak_cong)
      ((rule allocator.equality; simp add: header_updates offset_first [of _ "brk s"])+)?
qed

lemma general_grown_2:
  assumes "reset_ready s"
  shows "mem_malloc 100 (grown_1 s) = Some (brk s + 176, grown_2 s)"
proof -
  note f = ready_facts [OF assms]
  note offsets = offset_unat [OF f(1)] offset_eq_0 [OF f(1) _ f(2)] offset_le [OF f(1)]
    offset_less [OF f(1)] offset_less_base [OF f(1) _ f(4)]
    offset_less_base [OF f(1) _ order_refl] offset_first [of _ "brk s"]
  show ?thesis
    by (cases "heap_start s = NULL",
        simp_all add: grown_1_def grown_2_def run_simps offsets f(2,3,5,6) cong: let_weak_cong)
      ((rule allocator.equality; simp add: header_updates offset_first [of _ "brk s"])+)?
qed

lemma general_grown_3:
  assumes "reset_ready s"
  shows "mem_malloc 100 (grown_2 s) = Some (brk s + 320, grown_3 s)"
proof -
  note f = ready_facts [OF assms]
  note offsets = offset_unat [OF f(1)] offset_eq_0 [OF f(1) _ f(2)] offset_le [OF f(1)]
    offset_less [OF f(1)] offset_less_base [OF f(1) _ f(4)]
    offset_less_base [OF f(1) _ order_refl] offset_first [of _ "brk s"]
  show ?thesis
    by (cases "heap_start s = NULL",
        simp_all add: grown_2_def grown_3_def run_simps offsets f(2,3,5,6) cong: let_weak_cong)
      ((rule allocator.equality; simp add: header_updates offset_first [of _ "brk s"])+)?
qed

lemma general_merged_4:
  assumes "reset_ready s"
  shows "mem_free (brk s + 176) (grown_3 s) = Some (merged_4 s)"
proof -
  note f = ready_facts [OF assms]
  note offsets = offset_unat [OF f(1)] offset_eq_0 [OF f(1) _ f(2)] offset_le [OF f(1)]
    offset_less [OF f(1)] offset_less_base [OF f(1) _ f(4)]
    offset_less_base [OF f(1) _ order_refl] offset_first [of _ "brk s"]
  show ?thesis
    by (cases "heap_start s = NULL",
        simp_all add: grown_3_def merged_4_def run_simps offsets f(2,3,5,6) cong: let_weak_cong)
      ((rule allocator.equality; simp add: header_updates offset_first [of _ "brk s"])+)?
qed

lemma general_merged_5:
  assumes "reset_ready s"
  shows "mem_free (brk s + 32) (merged_4 s) = Some (merged_5 s)"
proof -
  note f = ready_facts [OF assms]
  note offsets = offset_unat [OF f(1)] offset_eq_0 [OF f(1) _ f(2)] offset_le [OF f(1)]
    offset_less [OF f(1)] offset_less_base [OF f(1) _ f(4)]
    offset_less_base [OF f(1) _ order_refl] offset_first [of _ "brk s"]
  show ?thesis
    by (cases "heap_start s = NULL",
        simp_all add: merged_4_def merged_5_def run_simps offsets f(2,3,5,6) cong: let_weak_cong)
      ((rule allocator.equality; simp add: header_updates offset_first [of _ "brk s"])+)?
qed

lemma general_merged_6:
  assumes "reset_ready s"
  shows "mem_free (brk s + 320) (merged_5 s) = Some (merged_6 s)"
proof -
  note f = ready_facts [OF assms]
  note offsets = offset_unat [OF f(1)] offset_eq_0 [OF f(1) _ f(2)] offset_le [OF f(1)]
    offset_less [OF f(1)] offset_less_base [OF f(1) _ f(4)]
    offset_less_base [OF f(1) _ order_refl] offset_first [of _ "brk s"]
  show ?thesis
    by (cases "heap_start s = NULL",
        simp_all add: merged_5_def merged_6_def run_simps offsets f(2,3,5,6) cong: let_weak_cong)
      ((rule allocator.equality; simp add: header_updates offset_first [of _ "brk s"])+)?
qed

lemma general_rejoined_2:
  assumes "reset_ready s"
  shows "mem_free (brk s + 32) (grown_1 s) = Some (rejoined_2 s)"
proof -
  note f = ready_facts [OF assms]
  note offsets = offset_unat [OF f(1)] offset_eq_0 [OF f(1) _ f(2)] offset_le [OF f(1)]
    offset_less [OF f(1)] offset_less_base [OF f(1) _ f(4)]
    offset_less_base [OF f(1) _ order_refl] offset_first [of _ "brk s"]
  show ?thesis
    by (cases "heap_start s = NULL",
        simp_all add: grown_1_def rejoined_2_def run_simps offsets f(2,3,5,6) cong: let_weak_cong)
      ((rule allocator.equality; simp add: header_updates offset_first [of _ "brk s"])+)?
qed

lemma general_carved_3:
  assumes "reset_ready s"
  shows "mem_malloc 50 (rejoined_2 s) = Some (brk s + 32, carved_3 s)"
proof -
  note f = ready_facts [OF assms]
  note offsets = offset_unat [OF f(1)] offset_eq_0 [OF f(1) _ f(2)] offset_le [OF f(1)]
    offset_less [OF f(1)] offset_less_base [OF f(1) _ f(4)]
    offset_less_base [OF f(1) _ order_refl] offset_first [of _ "brk s"]
  show ?thesis
    by (cases "heap_start s = NULL",
        simp_all add: rejoined_2_def carved_3_def run_simps offsets f(2,3,5,6) cong: let_weak_cong)
      ((rule allocator.equality; simp add: header_updates offset_first [of _ "brk s"])+)?
qed

section \<open>Effects of the list and block primitives\<close>

lemma remove_frame:
  "stats (remove_from_free_list b s) = stats s"
  "heap_start (remove_from_free_list b s) = heap_start s"
  "heap_end (remove_from_free_list b s) = heap_end s"
  "bytes (remove_from_free_list b s) = bytes s"
  "brk (remove_from_free_list b s) = brk s"
  "brk_limit (remove_from_free_list b s) = brk_limit s"
  "mmap_answers (remove_from_free_list b s) = mmap_answers s"
  "mappings (remove_from_free_list b s) = mappings s"
  by (simp_all add: remove_from_free_list_def Let_def setters)

lemma remove_hdr:
  "size_b (hdr (remove_from_free_list b s) a) = size_b (hdr s a)"
  "is_free (hdr (remove_from_free_list b s) a) = is_free (hdr s a)"
  "is_mmap (hdr (remove_from_free_list b s) a) = is_mmap (hdr s a)"
  by (simp_all add: remove_from_free_list_def Let_def setters)

lemma add_frame:
  "stats (add_to_free_list b s) = stats s"
  "heap_start (add_to_free_list b s) = heap_start s"
  "heap_end (add_to_free_list b s) = heap_end s"
  "bytes (add_to_free_list b s) = bytes s"
  "brk (add_to_free_list b s) = brk s"
  "brk_limit (add_to_free_list b s) = brk_limit s"
  "mmap_answers (add_to_free_list b s) = mmap_answers s"
  "mappings (add_to_free_list b s) = mappings s"
  by (simp_all add: add_to_free_list_def Let_def setters)

lemma add_hdr:
  "size_b (hdr (add_to_free_list b s) a) = size_b (hdr s a)"
  "is_free (hdr (add_to_free_list b s) a) = (if a = b then 1 else is_free (hdr s a))"
  "is_mmap (hdr (add_to_free_list b s) a) = is_mmap (hdr s a)"
  by (simp_all add: add_to_free_list_def Let_def setters)

lemma split_frame:
  "heap_start (split_block b n s) = heap_start s"
  "heap_end (split_block b n s) = heap_end s"
  "bytes (split_block b n s) = bytes s"
  "brk (split_block b n s) = brk s"
  "brk_limit (split_block b n s) = brk_limit s"
  "mmap_answers (split_block b n s) = mmap_answers s"
  "mappings (split_block b n s) = mappings s"
  "total_allocated (stats (split_block b n s)) = total_allocated (stats s)"
  "total_freed (stats (split_block b n s)) = total_freed (stats s)"
  "current_usage (stats (split_block b n s)) = current_usage (stats s)"
  by (simp_all add: split_block_def Let_def add_frame setters inc_splits_def)

lemma expand_frame:
  "stats (snd (expand_heap n s)) = stats s"
  "bytes (snd (expand_heap n s)) = bytes s"
  "brk_limit (snd (expand_heap n s)) = brk_limit s"
  "mmap_answers (snd (expand_heap n s)) = mmap_answers s"
  "mappings (snd (expand_heap n s)) = mappings s"
  by (simp_all add: expand_heap_def sbrk_def Let_def setters split_def)

lemma merge_next_frame:
  "heap_start (merge_next b s) = heap_start s"
  "heap_end (merge_next b s) = heap_end s"
  "bytes (merge_next b s) = bytes s"
  "brk (merge_next b s) = brk s"
  "brk_limit (merge_next b s) = brk_limit s"
  "mmap_answers (merge_next b s) = mmap_answers s"
  "mappings (merge_next b s) = mappings s"
  "total_allocated (stats (merge_next b s)) = total_allocated (stats s)"
  "total_freed (stats (merge_next b s)) = total_freed (stats s)"
  "current_usage (stats (merge_next b s)) = current_usage (stats s)"
  "num_allocations (stats (merge_next b s)) = num_allocations (stats s)"
  "num_frees (stats (merge_next b s)) = num_frees (stats s)"
  "num_splits (stats (merge_next b s)) = num_splits (stats s)"
  "is_free (hdr (merge_next b s) a) = is_free (hdr s a)"
  "is_mmap (hdr (merge_next b s) a) = is_mmap (hdr s a)"
  by (simp_all add: merge_next_def Let_def remove_frame remove_hdr set_size_def inc_coalesces_def)

text \<open>Every call of \<^verbatim>\<open>coalesce\<close> that returns satisfies \<open>coalesce_post\<close>.\<close>

lemma coalesce_returns:
  assumes "coalesce b s = Some y"
  shows "coalesce_post b s y"
  using assms
proof (induct rule: coalesce.raw_induct [rotated 1, consumes 1, case_names call])
  case (call rec_call block s y)
  show ?case
  proof (cases "block = NULL \<or> is_mmap (hdr s block) \<noteq> 0")
    case True
    with call(2) show ?thesis by (auto simp: coalesce_post_def)
  next
    case False
    note usable = this
    show ?thesis
    proof (cases "followed_by_free s block")
      case True
      with usable call(2) have "rec_call block (merge_next block s) = Some y"
        by (auto simp: followed_by_free_def merge_next_def Let_def not_le not_less
            split: if_splits)
      from call(1) [OF this] usable show ?thesis
        by (simp add: coalesce_post_def merge_next_frame)
    next
      case False
      with usable call(2) have "y = (block, s)"
        by (auto simp: followed_by_free_def Let_def not_le not_less split: if_splits)
      with False show ?thesis by (simp add: coalesce_post_def)
    qed
  qed
qed

section \<open>The counters\<close>

lemma malloc_counts:
  assumes "mem_malloc n s = Some (p, s1)"
  shows "\<exists>x. total_allocated (stats s1) = total_allocated (stats s) + x \<and>
             current_usage (stats s1) = current_usage (stats s) + x \<and>
             total_freed (stats s1) = total_freed (stats s) \<and>
             (p \<noteq> NULL \<longrightarrow> x = size_b (hdr s1 (p - sizeof_block_header_t)))"
proof (cases "n = 0")
  case True
  with assms show ?thesis by (auto simp: mem_malloc_def)
next
  case False
  note nz = this
  let ?total = "align_size (n + sizeof_block_header_t)"
  show ?thesis
  proof (cases "?total \<ge> MMAP_THRESHOLD")
    case True
    with nz assms show ?thesis
      by (auto simp: mem_malloc_def mmap_anon_def Let_def count_allocation_def setters NULL_def
          split: list.splits if_splits)
  next
    case False
    with nz assms obtain found where
      f: "find_free_block ?total s = Some found"
      by (auto simp: mem_malloc_def Let_def split: option.splits)
    from False nz assms f show ?thesis
      by (auto simp: mem_malloc_def Let_def split_def count_allocation_def set_is_free_def
          split_frame remove_frame expand_frame NULL_def split: if_splits)
  qed
qed

lemma free_counts:
  assumes "mem_free p s = Some s1" and "p \<noteq> NULL"
  shows "total_freed (stats s1) = total_freed (stats s) + size_b (hdr s (p - sizeof_block_header_t)) \<and>
         current_usage (stats s1) =
           current_usage (stats s) - size_b (hdr s (p - sizeof_block_header_t)) \<and>
         total_allocated (stats s1) = total_allocated (stats s)"
proof (cases "is_mmap (hdr s (p - sizeof_block_header_t)) \<noteq> 0")
  case True
  with assms show ?thesis
    by (auto simp: mem_free_def Let_def count_free_def munmap_def)
next
  case False
  let ?b = "p - sizeof_block_header_t"
  let ?s2 = "set_is_free ?b 1 (count_free (size_b (hdr s ?b)) s)"
  from False assms obtain y where
    c: "coalesce ?b ?s2 = Some y" and s1: "s1 = add_to_free_list (fst y) (snd y)"
    by (auto simp: mem_free_def Let_def split: option.splits)
  from coalesce_returns [OF c] s1 show ?thesis
    by (simp add: coalesce_post_def add_frame set_is_free_def count_free_def)
qed


lemma memset_stats: "memset p c n s = Inr s1 \<Longrightarrow> stats s1 = stats s"
  by (auto simp: memset_def split: if_splits)

lemma memcpy_stats: "memcpy d p n s = Inr s1 \<Longrightarrow> stats s1 = stats s"
  by (auto simp: memcpy_def split: if_splits)

lemma malloc_identity:
  assumes "mem_malloc n s = Some (p, s1)" and "usage_identity s"
  shows "usage_identity s1"
  using malloc_counts [OF assms(1)] assms(2) by (auto simp: usage_identity_def)

lemma free_identity:
  assumes "mem_free p s = Some s1" and "usage_identity s"
  shows "usage_identity s1"
proof (cases "p = NULL")
  case True
  with assms show ?thesis by (simp add: mem_free_def)
next
  case False
  from free_counts [OF assms(1) False] assms(2) show ?thesis
    by (simp add: usage_identity_def)
qed

lemma calloc_identity:
  assumes "mem_calloc k m s = Some (Inr (p, s1))" and "usage_identity s"
  shows "usage_identity s1"
proof (cases "k = 0 \<or> m = 0 \<or> (k * m) div k \<noteq> m")
  case True
  with assms show ?thesis by (auto simp: mem_calloc_def Let_def split: if_splits)
next
  case False
  with assms obtain q s2 where m: "mem_malloc (k * m) s = Some (q, s2)"
    and rest: "(if q \<noteq> NULL
                then (case memset q 0 (k * m) s2 of
                        Inl e \<Rightarrow> Some (Inl e) | Inr s3 \<Rightarrow> Some (Inr (q, s3)))
                else Some (Inr (q, s2))) = Some (Inr (p, s1))"
    by (auto simp: mem_calloc_def Let_def split: option.splits)
  from rest have "stats s1 = stats s2"
    by (auto simp: memset_stats split: if_splits sum.splits)
  with malloc_identity [OF m assms(2)] show ?thesis
    by (simp add: usage_identity_def)
qed

lemma realloc_identity:
  assumes "mem_realloc p n s = Some (Inr (q, s1))" and "usage_identity s"
  shows "usage_identity s1"
proof (cases "p = NULL")
  case True
  with assms show ?thesis
    by (auto simp: mem_realloc_def intro: malloc_identity)
next
  case False
  note p = this
  show ?thesis
  proof (cases "n = 0")
    case True
    with p assms show ?thesis
      by (auto simp: mem_realloc_def intro: free_identity)
  next
    case False
    note n = this
    show ?thesis
    proof (cases "size_b (hdr s (p - sizeof_block_header_t)) - sizeof_block_header_t \<ge> n")
      case True
      with p n assms show ?thesis by (auto simp: mem_realloc_def Let_def)
    next
      case False
      with p n assms obtain r s2 where m: "mem_malloc n s = Some (r, s2)"
        and rest: "(if r = NULL then Some (Inr (NULL, s2))
                    else (case memcpy r p
                            (size_b (hdr s (p - sizeof_block_header_t)) - sizeof_block_header_t) s2 of
                            Inl e \<Rightarrow> Some (Inl e)
                          | Inr s3 \<Rightarrow> map_option (\<lambda>s4. Inr (r, s4)) (mem_free p s3)))
                   = Some (Inr (q, s1))"
        by (auto simp: mem_realloc_def Let_def split: option.splits)
      have id2: "usage_identity s2" by (rule malloc_identity [OF m assms(2)])
      show ?thesis
      proof (cases "r = NULL")
        case True
        with rest id2 show ?thesis by simp
      next
        case False
        with rest obtain s3 where c: "memcpy r p
            (size_b (hdr s (p - sizeof_block_header_t)) - sizeof_block_header_t) s2 = Inr s3"
          and f: "mem_free p s3 = Some s1"
          by (auto split: sum.splits)
        from memcpy_stats [OF c] id2 have "usage_identity s3"
          by (simp add: usage_identity_def)
        from free_identity [OF f this] show ?thesis .
      qed
    qed
  qed
qed

lemma reset_identity: "usage_identity (mem_reset s)"
  by (simp add: usage_identity_def mem_reset_def zero_stats_def)

lemma perform_identity:
  assumes "perform r s = Some s1" and "usage_identity s"
  shows "usage_identity s1"
proof (cases r)
  case (Malloc n)
  with assms show ?thesis by (auto intro: malloc_identity)
next
  case (Free p)
  with assms show ?thesis by (auto intro: free_identity)
next
  case (Calloc k m)
  with assms show ?thesis
    by (auto intro: calloc_identity split: option.splits sum.splits)
next
  case (Realloc p n)
  with assms show ?thesis
    by (auto intro: realloc_identity split: option.splits sum.splits)
next
  case Reset
  with assms show ?thesis by (auto simp: reset_identity)
qed

lemma run_identity:
  assumes "run rs s = Some s1" and "usage_identity s"
  shows "usage_identity s1"
  using assms
proof (induction rs arbitrary: s)
  case Nil
  then show ?case by simp
next
  case (Cons r rs)
  then show ?case
    by (auto split: option.splits dest: perform_identity)
qed

section \<open>The two paths of \<^verbatim>\<open>mem_malloc\<close>\<close>

lemma malloc_mapped_path:
  assumes "n \<noteq> 0" and "MMAP_THRESHOLD \<le> align_size (n + sizeof_block_header_t)"
  shows "mem_malloc n s =
     (let total_size = align_size (n + sizeof_block_header_t);
          (ptr, s1) = mmap_anon total_size s in
      if ptr = MAP_FAILED then Some (NULL, s1)
      else
        let block = ptr;
            s2 = set_size block total_size s1;
            s3 = set_is_free block 0 s2;
            s4 = set_is_mmap block 1 s3;
            s5 = set_next block NULL s4;
            s6 = set_prev block NULL s5;
            s7 = count_allocation total_size s6
        in Some (block + sizeof_block_header_t, s7))"
  using assms by (simp add: mem_malloc_def Let_def)

lemma malloc_heap_path:
  assumes "n \<noteq> 0" and "align_size (n + sizeof_block_header_t) < MMAP_THRESHOLD"
  shows "mem_malloc n s =
     (let total_size = align_size (n + sizeof_block_header_t) in
      case find_free_block total_size s of
        None \<Rightarrow> None
      | Some found \<Rightarrow>
          let (block, s1) = (if found = NULL then expand_heap total_size s else (found, s)) in
          if block = NULL then Some (NULL, s1)
          else
            let s2 = remove_from_free_list block s1;
                s3 = split_block block n s2;
                s4 = set_is_free block 0 s3;
                s5 = count_allocation (size_b (hdr s4 block)) s4
            in Some (block + sizeof_block_header_t, s5))"
  using assms by (simp add: mem_malloc_def Let_def not_le [symmetric])

lemma mmap_anon_result:
  assumes "mmap_anon len s = (ptr, s1)"
  shows "(ptr = MAP_FAILED \<and> s1 = s\<lparr>mmap_answers := tl (mmap_answers s)\<rparr>) \<or>
         (ptr \<noteq> MAP_FAILED \<and> ptr AND 4095 = 0 \<and>
          s1 = s\<lparr>mmap_answers := tl (mmap_answers s), mappings := (ptr, len) # mappings s\<rparr>)"
  using assms by (auto simp: mmap_anon_def split: list.splits if_splits)

lemma mapped_block:
  assumes big: "MMAP_THRESHOLD \<le> align_size (n + sizeof_block_header_t)"
    and m: "mem_malloc n s = Some (p, s1)" and p: "p \<noteq> NULL"
  shows "\<exists>a. p = a + sizeof_block_header_t \<and>
         s1 = count_allocation (align_size (n + sizeof_block_header_t))
               (set_prev a NULL (set_next a NULL (set_is_mmap a 1 (set_is_free a 0
                 (set_size a (align_size (n + sizeof_block_header_t))
                    (s\<lparr>mmap_answers := tl (mmap_answers s),
                       mappings := (a, align_size (n + sizeof_block_header_t)) # mappings s\<rparr>))))))"
proof -
  let ?total = "align_size (n + sizeof_block_header_t)"
  from m p have nz: "n \<noteq> 0" by (auto simp: mem_malloc_def)
  obtain ptr sa where mm: "mmap_anon ?total s = (ptr, sa)" by (cases "mmap_anon ?total s")
  from m p have ok: "ptr \<noteq> MAP_FAILED"
    unfolding malloc_mapped_path [OF nz big] by (auto simp: Let_def mm)
  with mmap_anon_result [OF mm]
  have sa: "sa = s\<lparr>mmap_answers := tl (mmap_answers s), mappings := (ptr, ?total) # mappings s\<rparr>"
    by simp
  from m ok have "p = ptr + sizeof_block_header_t \<and>
      s1 = count_allocation ?total (set_prev ptr NULL (set_next ptr NULL (set_is_mmap ptr 1
             (set_is_free ptr 0 (set_size ptr ?total sa)))))"
    unfolding malloc_mapped_path [OF nz big] by (simp add: Let_def mm)
  with sa show ?thesis by blast
qed



section \<open>Alignment arithmetic\<close>

lemma and_not_15: "(w :: 64 word) AND NOT 15 = w - (w AND 15)"
proof -
  have "w - (w AND 15) = w AND NOT (w AND 15)"
    by (rule disjunctive_diff_eq_and_not) (simp add: and.assoc [symmetric])
  also have "\<dots> = w AND NOT 15"
    by (auto simp: bit_eq_iff bit_simps)
  finally show ?thesis by simp
qed

lemma unat_and_15: "unat ((w :: 64 word) AND 15) = unat w mod 16"
proof -
  have "w AND 15 = take_bit 4 w"
    by (simp add: take_bit_eq_mask mask_eq_exp_minus_1)
  then show ?thesis
    by (simp add: unsigned_take_bit_eq take_bit_eq_mod unat_mod)
qed

lemma unat_and_not_15: "unat ((w :: 64 word) AND NOT 15) = unat w - unat w mod 16"
proof -
  have "w AND 15 \<le> w" by (rule word_and_le2)
  then have "unat (w - (w AND 15)) = unat w - unat (w AND 15)"
    by (simp add: unat_sub)
  then show ?thesis
    unfolding and_not_15 by (simp add: unat_and_15)
qed

lemma align_size_alt: "align_size n = (n + 15) AND NOT 15"
  by (simp add: align_size_def ALIGNMENT_def add.commute)

lemma unat_align_size:
  assumes "unat n + 15 < 2 ^ 64"
  shows "unat (align_size n) = unat n + 15 - (unat n + 15) mod 16"
proof -
  have "unat (n + 15) = unat n + 15"
    using assms by (simp add: unat_word_ariths)
  then show ?thesis
    by (simp only: align_size_alt unat_and_not_15)
qed

lemma align_size_lower:
  assumes "unat n + 15 < 2 ^ 64"
  shows "unat n \<le> unat (align_size n)"
proof -
  have "(unat n + 15) mod 16 \<le> 15" by simp
  then show ?thesis
    unfolding unat_align_size [OF assms] by linarith
qed

section \<open>Allocations that fail\<close>

lemma expand_heap_fails:
  assumes "fst (expand_heap n s) = NULL" and "brk s \<noteq> NULL"
  shows "snd (expand_heap n s) = s"
  using assms
  by (auto simp: expand_heap_def sbrk_def Let_def split_def NULL_def SBRK_FAILED_def
      split: if_splits)

lemma expand_heap_block:
  assumes ok: "fst (expand_heap n s) \<noteq> NULL" and small: "n < MMAP_THRESHOLD"
  shows "fst (expand_heap n s) + sizeof_block_header_t \<noteq> NULL"
proof -
  let ?alloc = "if n < BRK_INCREMENT then BRK_INCREMENT else align_size n"
  from ok have b: "fst (expand_heap n s) = brk s"
    and fits: "unat (brk s) + unat ?alloc \<le> unat (brk_limit s)"
    by (auto simp: expand_heap_def sbrk_def Let_def split_def split: if_splits)
  have n: "unat n < 131072"
    using small by (simp add: MMAP_THRESHOLD_def word_less_nat_alt)
  have "65536 \<le> unat ?alloc"
  proof (cases "n < BRK_INCREMENT")
    case True
    then show ?thesis by (simp add: BRK_INCREMENT_def)
  next
    case False
    then have "65536 \<le> unat n"
      by (simp add: BRK_INCREMENT_def word_less_nat_alt)
    moreover have "unat n \<le> unat (align_size n)"
      using n by (intro align_size_lower) simp
    ultimately show ?thesis using False by simp
  qed
  moreover have "unat (brk_limit s) < 2 ^ 64"
    using unsigned_less [of "brk_limit s"] by simp
  ultimately have "unat (brk s) + 32 < 2 ^ 64"
    using fits by linarith
  then have "unat (brk s + 32) = unat (brk s) + 32"
    by (simp add: unat_word_ariths)
  then have "brk s + 32 \<noteq> 0"
    by (metis add_is_0 unat_0 zero_neq_numeral)
  with b show ?thesis
    by (simp add: sizeof_block_header_t_def NULL_def)
qed

lemma page_payload_not_null:
  fixes a :: addr
  assumes "a AND 4095 = 0"
  shows "a + sizeof_block_header_t \<noteq> NULL"
proof
  assume "a + sizeof_block_header_t = NULL"
  then have "a = - 32"
    by (simp add: sizeof_block_header_t_def NULL_def eq_neg_iff_add_eq_0)
  with assms show False by simp
qed

lemma malloc_null_unchanged:
  assumes m: "mem_malloc n s = Some (NULL, s1)"
    and brk: "brk s \<noteq> NULL"
    and found: "find_free_block (align_size (n + sizeof_block_header_t)) s
                  \<noteq> Some (- sizeof_block_header_t)"
  shows "s1 = s\<lparr>mmap_answers := mmap_answers s1\<rparr>"
proof (cases "n = 0")
  case True
  with m show ?thesis by (simp add: mem_malloc_def)
next
  case False
  note nz = this
  let ?total = "align_size (n + sizeof_block_header_t)"
  show ?thesis
  proof (cases "MMAP_THRESHOLD \<le> ?total")
    case True
    obtain ptr sa where mm: "mmap_anon ?total s = (ptr, sa)" by (cases "mmap_anon ?total s")
    show ?thesis
    proof (cases "ptr = MAP_FAILED")
      case True
      with m have "s1 = sa"
        unfolding malloc_mapped_path [OF nz \<open>MMAP_THRESHOLD \<le> ?total\<close>]
        by (simp add: Let_def mm)
      with mmap_anon_result [OF mm] True show ?thesis by auto
    next
      case False
      with mmap_anon_result [OF mm] have "ptr AND 4095 = 0" by simp
      then have "ptr + sizeof_block_header_t \<noteq> NULL" by (rule page_payload_not_null)
      with m False show ?thesis
        unfolding malloc_mapped_path [OF nz \<open>MMAP_THRESHOLD \<le> ?total\<close>]
        by (simp add: Let_def mm)
    qed
  next
    case False
    then have small: "?total < MMAP_THRESHOLD" by simp
    from m obtain f where f: "find_free_block ?total s = Some f"
      unfolding malloc_heap_path [OF nz small] by (auto simp: Let_def split: option.splits)
    obtain b sa where e: "(if f = NULL then expand_heap ?total s else (f, s)) = (b, sa)"
      by (cases "if f = NULL then expand_heap ?total s else (f, s)")
    from m have r: "(b = NULL \<and> s1 = sa) \<or> (b \<noteq> NULL \<and> b + sizeof_block_header_t = NULL)"
      unfolding malloc_heap_path [OF nz small] by (auto simp: Let_def f e split: if_splits)
    show ?thesis
    proof (cases "f = NULL")
      case True
      with e have b: "b = fst (expand_heap ?total s)" and sa: "sa = snd (expand_heap ?total s)"
        by simp_all
      from r b expand_heap_block [OF _ small, of s] have "b = NULL \<and> s1 = sa" by auto
      with b sa expand_heap_fails [OF _ brk, of ?total] show ?thesis by simp
    next
      case False
      with e have "b = f" "sa = s" by simp_all
      with r False have "f = - sizeof_block_header_t"
        by (simp add: NULL_def eq_neg_iff_add_eq_0)
      with found f have False by simp
      then show ?thesis ..
    qed
  qed
qed

lemma list_reaches_same_hdr:
  assumes "list_reaches s a b" and "hdr s1 = hdr s"
  shows "list_reaches s1 a b"
  using assms
proof (induction rule: list_reaches.induct)
  case (here a)
  then show ?case by (simp add: list_reaches.here)
next
  case (further a b)
  then show ?case by (simp add: list_reaches.further)
qed

lemma on_free_list_same:
  assumes "hdr s1 = hdr s" and "free_lists s1 = free_lists s"
  shows "on_free_list s1 b = on_free_list s b"
  using assms list_reaches_same_hdr [of s _ b s1] list_reaches_same_hdr [of s1 _ b s]
  by (auto simp: on_free_list_def)

section \<open>The block an allocation returns is large enough\<close>

lemma find_in_list_fits:
  assumes "find_in_list s sz cur = Some b" and "b \<noteq> NULL"
  shows "sz \<le> size_b (hdr s b)"
  using assms
proof (induct rule: find_in_list.raw_induct [rotated 1, consumes 1, case_names call])
  case (call rec_call s sz current b)
  then show ?case
    by (auto split: if_splits)
qed

lemma find_from_class_fits:
  assumes "find_from_class s sz i = Some b" and "b \<noteq> NULL"
  shows "sz \<le> size_b (hdr s b)"
  using assms
proof (induction s sz i rule: find_from_class.induct)
  case (1 s sz i)
  show ?case
  proof (cases "i < NUM_SIZE_CLASSES")
    case False
    with "1.prems" show ?thesis by simp
  next
    case True
    with "1.prems" obtain f where f: "find_in_list s sz (free_lists s i) = Some f"
      by (auto split: option.splits)
    show ?thesis
    proof (cases "f = NULL")
      case False
      with True f "1.prems" have "b = f" by simp
      with f "1.prems"(2) show ?thesis by (auto dest: find_in_list_fits)
    next
      case null: True
      with True f "1.prems" have next_class: "find_from_class s sz (i + 1) = Some b" by simp
      from null have "\<not> f \<noteq> NULL" by simp
      from "1.IH" [OF True f this next_class "1.prems"(2)] show ?thesis .
    qed
  qed
qed

lemma expand_heap_size:
  assumes ok: "fst (expand_heap n s) \<noteq> NULL" and small: "n < MMAP_THRESHOLD"
  shows "n \<le> size_b (hdr (snd (expand_heap n s)) (fst (expand_heap n s)))"
proof -
  let ?alloc = "if n < BRK_INCREMENT then BRK_INCREMENT else align_size n"
  from ok have sz: "size_b (hdr (snd (expand_heap n s)) (fst (expand_heap n s))) = ?alloc"
    by (auto simp: expand_heap_def sbrk_def Let_def split_def setters split: if_splits)
  have n: "unat n < 131072"
    using small by (simp add: MMAP_THRESHOLD_def word_less_nat_alt)
  have "n \<le> ?alloc"
  proof (cases "n < BRK_INCREMENT")
    case True
    then show ?thesis by simp
  next
    case False
    have "unat n \<le> unat (align_size n)"
      using n by (intro align_size_lower) simp
    with False show ?thesis by (simp add: word_le_nat_alt)
  qed
  with sz show ?thesis by simp
qed

lemma split_block_size:
  assumes "align_size (n + sizeof_block_header_t) \<le> size_b (hdr s b)"
    and "align_size (n + sizeof_block_header_t) \<noteq> 0"
  shows "align_size (n + sizeof_block_header_t) \<le> size_b (hdr (split_block b n s) b)"
  using assms
  by (auto simp: split_block_def Let_def add_hdr setters inc_splits_def)

lemma malloc_block_size:
  assumes m: "mem_malloc n s = Some (p, s1)" and p: "p \<noteq> NULL"
    and t: "align_size (n + sizeof_block_header_t) \<noteq> 0"
  shows "align_size (n + sizeof_block_header_t) \<le> size_b (hdr s1 (p - sizeof_block_header_t))"
proof -
  let ?total = "align_size (n + sizeof_block_header_t)"
  from m p have nz: "n \<noteq> 0" by (auto simp: mem_malloc_def)
  show ?thesis
  proof (cases "MMAP_THRESHOLD \<le> ?total")
    case True
    from mapped_block [OF True m p] show ?thesis
      by (auto simp: count_allocation_def setters)
  next
    case False
    then have small: "?total < MMAP_THRESHOLD" by simp
    from m obtain f where f: "find_free_block ?total s = Some f"
      unfolding malloc_heap_path [OF nz small] by (auto simp: Let_def split: option.splits)
    obtain b sa where e: "(if f = NULL then expand_heap ?total s else (f, s)) = (b, sa)"
      by (cases "if f = NULL then expand_heap ?total s else (f, s)")
    from m p have b: "b \<noteq> NULL" and pb: "p = b + sizeof_block_header_t"
      and s1: "s1 = count_allocation
                 (size_b (hdr (set_is_free b 0 (split_block b n (remove_from_free_list b sa))) b))
                 (set_is_free b 0 (split_block b n (remove_from_free_list b sa)))"
      unfolding malloc_heap_path [OF nz small]
      by (auto simp: Let_def f e split: if_splits)
    have "?total \<le> size_b (hdr sa b)"
    proof (cases "f = NULL")
      case True
      with e have "b = fst (expand_heap ?total s)" "sa = snd (expand_heap ?total s)"
        by simp_all
      with b expand_heap_size [OF _ small, of s] show ?thesis by simp
    next
      case False
      with e have bf: "b = f" "sa = s" by simp_all
      from f have "find_from_class s ?total (get_size_class ?total) = Some f"
        by (simp only: find_free_block_def)
      from find_from_class_fits [OF this False] bf show ?thesis by simp
    qed
    then have "?total \<le> size_b (hdr (remove_from_free_list b sa) b)"
      by (simp add: remove_hdr)
    from split_block_size [OF this t]
    have "?total \<le> size_b (hdr (split_block b n (remove_from_free_list b sa)) b)" .
    then show ?thesis
      by (simp add: s1 pb count_allocation_def set_is_free_def)
  qed
qed

lemma malloc_capacity:
  assumes m: "mem_malloc n s = Some (p, s1)" and p: "p \<noteq> NULL"
    and n: "n \<le> SIZE_MAX - sizeof_block_header_t - 15"
  shows "in_payload s1 p n"
proof -
  from n have un: "unat n + 47 < 2 ^ 64"
    by (simp add: SIZE_MAX_def sizeof_block_header_t_def word_le_nat_alt)
  then have u32: "unat (n + sizeof_block_header_t) = unat n + 32"
    by (simp add: sizeof_block_header_t_def unat_word_ariths)
  with un have "unat (n + sizeof_block_header_t) \<le>
      unat (align_size (n + sizeof_block_header_t))"
    by (intro align_size_lower) simp
  with u32 have low: "unat n + 32 \<le> unat (align_size (n + sizeof_block_header_t))"
    by simp
  then have "align_size (n + sizeof_block_header_t) \<noteq> 0"
    by (metis add_is_0 le_zero_eq unat_0 zero_neq_numeral)
  from malloc_block_size [OF m p this] low show ?thesis
    by (simp add: in_payload_def sizeof_block_header_t_def word_le_nat_alt)
qed


section \<open>What holds when the size rounding does not wrap\<close>

text \<open>The overflow test of \<^verbatim>\<open>mem_calloc\<close> is exact.\<close>

lemma calloc_overflow_test:
  fixes k m :: size_t
  assumes "k \<noteq> 0"
  shows "((k * m) div k \<noteq> m) = (2 ^ 64 \<le> unat k * unat m)"
proof -
  from assms have k: "0 < unat k" by (simp add: unat_gt_0)
  have prod: "unat (k * m) = (unat k * unat m) mod 2 ^ 64"
    by (simp add: unat_word_ariths)
  have quot: "unat ((k * m) div k) = unat (k * m) div unat k"
    by (simp add: unat_div)
  show ?thesis
  proof (cases "2 ^ 64 \<le> unat k * unat m")
    case False
    then have "unat ((k * m) div k) = unat m"
      using k by (simp add: prod quot)
    then have "(k * m) div k = m" by (simp add: word_unat_eq_iff)
    with False show ?thesis by simp
  next
    case True
    have "unat (k * m) < 2 ^ 64"
      using unsigned_less [of "k * m"] by simp
    with True have "unat (k * m) < unat k * unat m" by linarith
    then have "unat (k * m) div unat k < unat m"
      using k by (simp add: less_mult_imp_div_less mult.commute)
    then have "unat ((k * m) div k) \<noteq> unat m"
      by (simp add: quot)
    then have "(k * m) div k \<noteq> m" by auto
    with True show ?thesis by simp
  qed
qed

text \<open>
  \<^verbatim>\<open>mem_calloc\<close>: a zero factor and an overflowing product give null and leave the state
  alone; a product of at most \<open>SIZE_MAX - H - 15\<close> is allocated as \<^verbatim>\<open>mem_malloc\<close> allocates
  it, and a block that is returned has that many zero bytes at its payload address.
\<close>

lemma calloc_zero_factor:
  "k = 0 \<or> m = 0 \<Longrightarrow> mem_calloc k m s = Some (Inr (NULL, s))"
  by (simp add: mem_calloc_def)

lemma calloc_overflow:
  assumes "k \<noteq> 0" and "m \<noteq> 0" and "2 ^ 64 \<le> unat k * unat m"
  shows "mem_calloc k m s = Some (Inr (NULL, s))"
  using assms calloc_overflow_test [OF assms(1), of m]
  by (simp add: mem_calloc_def Let_def)

lemma calloc_zeroes:
  assumes "k \<noteq> 0" and "m \<noteq> 0" and fits: "unat k * unat m + 47 < 2 ^ 64"
    and m: "mem_malloc (k * m) s = Some (p, s1)"
  shows "if p = NULL then mem_calloc k m s = Some (Inr (NULL, s1))
         else (\<exists>s2. mem_calloc k m s = Some (Inr (p, s2)) \<and>
                 (\<forall>i. i < k * m \<longrightarrow> bytes s2 (p + i) = 0) \<and>
                 (\<forall>a. \<not> a - p < k * m \<longrightarrow> bytes s2 a = bytes s1 a) \<and>
                 hdr s2 = hdr s1 \<and> free_lists s2 = free_lists s1 \<and> stats s2 = stats s1)"
proof -
  from fits have no: "\<not> 2 ^ 64 \<le> unat k * unat m" by simp
  with calloc_overflow_test [OF assms(1), of m] have test: "(k * m) div k = m" by simp
  from no have prod: "unat (k * m) = unat k * unat m"
    by (simp add: unat_word_ariths)
  show ?thesis
  proof (cases "p = NULL")
    case True
    with assms(1,2) test m show ?thesis
      by (simp add: mem_calloc_def Let_def)
  next
    case False
    from fits prod have "k * m \<le> SIZE_MAX - sizeof_block_header_t - 15"
      by (simp add: SIZE_MAX_def sizeof_block_header_t_def word_le_nat_alt)
    from malloc_capacity [OF m False this] have "in_payload s1 p (k * m)" .
    with assms(1,2) test m False show ?thesis
      by (simp add: mem_calloc_def Let_def memset_def)
  qed
qed

text \<open>
  \<^verbatim>\<open>mem_realloc\<close>: a block allocated for \<open>a \<le> SIZE_MAX - H - 15\<close> bytes whose header is as
  the allocation left it is returned as it is for every new size from 1 to \<open>a\<close>.
\<close>

lemma realloc_within_capacity:
  assumes m: "mem_malloc a s = Some (p, s1)" and p: "p \<noteq> NULL"
    and a: "a \<le> SIZE_MAX - sizeof_block_header_t - 15"
    and b: "0 < b" "b \<le> a"
    and live: "hdr s2 (p - sizeof_block_header_t) = hdr s1 (p - sizeof_block_header_t)"
  shows "mem_realloc p b s2 = Some (Inr (p, s2))"
proof -
  from malloc_capacity [OF m p a]
  have cap: "unat a + 32 \<le> unat (size_b (hdr s1 (p - sizeof_block_header_t)))"
    by (simp add: in_payload_def sizeof_block_header_t_def)
  then have "32 \<le> size_b (hdr s1 (p - sizeof_block_header_t))"
    by (simp add: word_le_nat_alt)
  then have "unat (size_b (hdr s1 (p - sizeof_block_header_t)) - 32) =
      unat (size_b (hdr s1 (p - sizeof_block_header_t))) - 32"
    by (simp add: unat_sub)
  with cap b(2) have "b \<le> size_b (hdr s1 (p - sizeof_block_header_t)) - sizeof_block_header_t"
    by (simp add: word_le_nat_alt sizeof_block_header_t_def)
  with p b(1) live show ?thesis
    by (simp add: mem_realloc_def Let_def)
qed

section \<open>Requests whose size rounding wraps\<close>

text \<open>
  For \<open>n\<close> above \<open>SIZE_MAX - H - 15\<close> the sum \<open>n + H + 15\<close> passes \<open>2^64\<close>, so the rounded
  block size is \<open>n + H + 15 - 2^64\<close> rounded down to a multiple of 16: one of 0, 16 and
  32. In the fresh process each of the three makes \<^verbatim>\<open>mem_malloc\<close> extend the heap and
  return the payload address of a block of that size.
\<close>

lemma wrapped_sizes:
  assumes "SIZE_MAX - sizeof_block_header_t - 15 < n"
  shows "unat (align_size (n + sizeof_block_header_t)) = (unat n + 47 - 2 ^ 64) div 16 * 16"
    and "unat n + 47 - 2 ^ 64 \<le> 46" and "n \<noteq> 0"
proof -
  from assms have low: "2 ^ 64 - 48 < unat n"
    by (simp add: SIZE_MAX_def sizeof_block_header_t_def word_less_nat_alt)
  moreover have "unat n < 2 ^ 64"
    using unsigned_less [of n] by simp
  ultimately have wrap: "unat (n + 47) = unat n + 47 - 2 ^ 64"
    and small: "unat n + 47 - 2 ^ 64 \<le> 46"
    by (simp_all add: unat_word_ariths le_mod_geq)
  have "align_size (n + sizeof_block_header_t) = (n + 47) AND NOT 15"
    by (simp add: align_size_alt sizeof_block_header_t_def add.commute)
  then have "unat (align_size (n + sizeof_block_header_t)) = unat (n + 47) - unat (n + 47) mod 16"
    by (simp only: unat_and_not_15)
  also have "\<dots> = unat (n + 47) div 16 * 16"
    by (simp add: minus_mod_eq_div_mult)
  finally show "unat (align_size (n + sizeof_block_header_t)) = (unat n + 47 - 2 ^ 64) div 16 * 16"
    by (simp only: wrap)
  from small show "unat n + 47 - 2 ^ 64 \<le> 46" .
  from low show "n \<noteq> 0" by (auto simp: unat_eq_0)
qed

lemma wrapped_size_cases:
  assumes "SIZE_MAX - sizeof_block_header_t - 15 < n"
  shows "align_size (n + sizeof_block_header_t) = 0 \<or>
    align_size (n + sizeof_block_header_t) = 16 \<or> align_size (n + sizeof_block_header_t) = 32"
proof -
  define k where "k = unat n + 47 - 2 ^ 64"
  from wrapped_sizes(1,2) [OF assms]
  have u: "unat (align_size (n + sizeof_block_header_t)) = k div 16 * 16" and "k \<le> 46"
    by (simp_all add: k_def)
  then have "k div 16 * 16 = 0 \<or> k div 16 * 16 = 16 \<or> k div 16 * 16 = 32"
    by presburger
  with u have "unat (align_size (n + sizeof_block_header_t)) = unat (0 :: 64 word) \<or>
    unat (align_size (n + sizeof_block_header_t)) = unat (16 :: 64 word) \<or>
    unat (align_size (n + sizeof_block_header_t)) = unat (32 :: 64 word)"
    by simp
  then show ?thesis
    by (simp only: word_unat_eq_iff [symmetric])
qed

text \<open>
  The equations that run \<^verbatim>\<open>mem_malloc\<close> when only the value of the rounded size is known:
  those of \<open>run_simps\<close> it needs, without the definition of \<^verbatim>\<open>align_size\<close>.
\<close>

lemmas wrapped_simps =
  get_size_class_def remove_from_free_list_def add_to_free_list_def
  inc_splits_def split_block_def expand_heap_def find_free_block_def
  find_in_list.simps count_allocation_def mem_malloc_def sbrk_def
  initial_state_def zero_stats_def zero_header_def
  setters constants Let_def split_def

lemma malloc_wrapped_32:
  assumes a: "align_size (n + 32) = 32" and n: "n \<noteq> 0"
  shows "\<exists>s1. mem_malloc n fresh_process = Some (0x10000020, s1) \<and>
    size_b (hdr s1 0x10000000) = 32"
  by (simp add: fresh_process_def wrapped_simps a n cong: let_weak_cong)

lemma malloc_wrapped_16:
  assumes a: "align_size (n + 32) = 16" and n: "n \<noteq> 0"
  shows "\<exists>s1. mem_malloc n fresh_process = Some (0x10000020, s1) \<and>
    size_b (hdr s1 0x10000000) = 16"
  by (simp add: fresh_process_def wrapped_simps a n cong: let_weak_cong)

lemma malloc_wrapped_0:
  assumes a: "align_size (n + 32) = 0" and n: "n \<noteq> 0"
  shows "\<exists>s1. mem_malloc n fresh_process = Some (0x10000020, s1) \<and>
    size_b (hdr s1 0x10000000) = 0"
  by (simp add: fresh_process_def wrapped_simps a n cong: let_weak_cong)

lemma malloc_wrapped:
  assumes "SIZE_MAX - sizeof_block_header_t - 15 < n"
  shows "\<exists>s1. mem_malloc n fresh_process = Some (0x10000020, s1) \<and>
    size_b (hdr s1 (0x10000020 - sizeof_block_header_t)) = align_size (n + sizeof_block_header_t)"
  using wrapped_size_cases [OF assms] wrapped_sizes(3) [OF assms]
    malloc_wrapped_0 [of n] malloc_wrapped_16 [of n] malloc_wrapped_32 [of n]
  by (auto simp: sizeof_block_header_t_def)

section \<open>The claims\<close>

lemma list_reaches_null: "\<not> list_reaches s NULL b"
  by (auto elim: list_reaches.cases)

text \<open>
  C1 (free-list membership). The claim: after any sequence of public operations every
  free, non-mapped block is on exactly one free list, and an allocation that extends the
  heap unlinks only the chosen block. The code does not keep this: \<^verbatim>\<open>mem_malloc\<close> calls
  \<^verbatim>\<open>remove_from_free_list\<close> on the block \<^verbatim>\<open>expand_heap\<close> has just made, which is on no list
  and has null links, so the head of its class-9 list is overwritten with null. After
  \<^verbatim>\<open>mem_malloc(100)\<close> the free remainder at \<open>0x10000090\<close> is on the class-9 list; after
  \<^verbatim>\<open>mem_malloc(70000)\<close>, which extends the heap, it is still flagged free and is on no list.
\<close>

theorem C1_heap_extension_drops_class9_list:
  "mem_malloc 100 fresh_process = Some (0x10000020, heap_1) \<and>
   on_free_list heap_1 0x10000090 \<and>
   mem_malloc 70000 heap_1 = Some (0x10010020, lost_2) \<and>
   is_free (hdr lost_2 0x10000090) = 1 \<and>
   is_mmap (hdr lost_2 0x10000090) = 0 \<and>
   \<not> on_free_list lost_2 0x10000090"
proof -
  have "list_reaches heap_1 (free_lists heap_1 9) 0x10000090"
    by (simp add: heap_1_def list_reaches.here NULL_def)
  then have on: "on_free_list heap_1 0x10000090"
    unfolding on_free_list_def NUM_SIZE_CLASSES_def by (intro exI [of _ 9]) simp
  have "free_lists lost_2 i = NULL" for i
    by (simp add: lost_2_def NULL_def)
  then have off: "\<not> on_free_list lost_2 0x10000090"
    by (simp add: on_free_list_def list_reaches_null)
  have "is_free (hdr lost_2 0x10000090) = 1" "is_mmap (hdr lost_2 0x10000090) = 0"
    by (simp_all add: lost_2_def)
  with on off step_heap_1 step_lost_2 show ?thesis by simp
qed

text \<open>
  C2 (no two adjacent free blocks at quiescence). The claim fails on the code, by design:
  \<^verbatim>\<open>coalesce\<close> only looks forward. After \<^verbatim>\<open>a = mem_malloc(100); b = mem_malloc(100);
  mem_free(a); mem_free(b)\<close> the block of \<open>a\<close> at \<open>0x10000000\<close> is free, on a free list, and
  immediately followed by the free block that \<open>b\<close> was merged into.
\<close>

theorem C2_counterexample_adjacent_free_blocks:
  "mem_malloc 100 fresh_process = Some (0x10000020, heap_1) \<and>
   mem_malloc 100 heap_1 = Some (0x100000B0, heap_2) \<and>
   mem_free 0x10000020 heap_2 = Some adjacent_3 \<and>
   mem_free 0x100000B0 adjacent_3 = Some adjacent_4 \<and>
   is_free (hdr adjacent_4 0x10000000) = 1 \<and>
   is_mmap (hdr adjacent_4 0x10000000) = 0 \<and>
   on_free_list adjacent_4 0x10000000 \<and>
   followed_by_free adjacent_4 0x10000000"
proof -
  have "list_reaches adjacent_4 (free_lists adjacent_4 3) 0x10000000"
    by (simp add: adjacent_4_def list_reaches.here NULL_def)
  then have "on_free_list adjacent_4 0x10000000"
    unfolding on_free_list_def NUM_SIZE_CLASSES_def by (intro exI [of _ 3]) simp
  moreover have "followed_by_free adjacent_4 0x10000000"
    by (simp add: followed_by_free_def adjacent_4_def sizeof_block_header_t_def)
  moreover have "is_free (hdr adjacent_4 0x10000000) = 1" "is_mmap (hdr adjacent_4 0x10000000) = 0"
    by (simp_all add: adjacent_4_def)
  ultimately show ?thesis
    using step_heap_1 step_heap_2 step_adjacent_3 step_adjacent_4 by simp
qed

text \<open>
  C2 as amended: when a release of a non-mapped block returns, the released block, grown
  by its forward merges, is free and is not immediately followed in the heap region by a
  free block. (A free block that lies before the released block is not merged with it.)
\<close>

theorem C2_released_block_has_no_free_follower:
  assumes "mem_free p s = Some s1"
    and "p \<noteq> NULL" and "p - sizeof_block_header_t \<noteq> NULL"
    and "is_mmap (hdr s (p - sizeof_block_header_t)) = 0"
  shows "is_free (hdr s1 (p - sizeof_block_header_t)) \<noteq> 0 \<and>
         is_mmap (hdr s1 (p - sizeof_block_header_t)) = 0 \<and>
         \<not> followed_by_free s1 (p - sizeof_block_header_t)"
proof -
  let ?b = "p - sizeof_block_header_t"
  let ?s2 = "set_is_free ?b 1 (count_free (size_b (hdr s ?b)) s)"
  from assms obtain y where
    c: "coalesce ?b ?s2 = Some y" and s1: "s1 = add_to_free_list (fst y) (snd y)"
    by (auto simp: mem_free_def Let_def split: option.splits)
  have flags: "is_free (hdr ?s2 ?b) = 1" "is_mmap (hdr ?s2 ?b) = 0"
    using assms(4) by (simp_all add: set_is_free_def count_free_def)
  from coalesce_returns [OF c] flags assms(3)
  have y: "fst y = ?b" "heap_start (snd y) = heap_start ?s2" "heap_end (snd y) = heap_end ?s2"
    "is_free (hdr (snd y) ?b) = 1" "is_mmap (hdr (snd y) ?b) = 0"
    "\<not> followed_by_free (snd y) ?b"
    by (simp_all add: coalesce_post_def)
  have "\<not> followed_by_free (add_to_free_list ?b (snd y)) ?b"
    using y(4-6) by (auto simp: followed_by_free_def Let_def add_frame add_hdr split: if_splits)
  with y s1 show ?thesis
    by (simp add: add_hdr)
qed

theorem C2_released_block_has_no_free_follower_witness:
  "mem_free 0x100000B0 adjacent_3 = Some adjacent_4 \<and>
   is_mmap (hdr adjacent_3 (0x100000B0 - sizeof_block_header_t)) = 0 \<and>
   is_free (hdr adjacent_4 (0x100000B0 - sizeof_block_header_t)) \<noteq> 0 \<and>
   \<not> followed_by_free adjacent_4 (0x100000B0 - sizeof_block_header_t)"
proof -
  have a: "(0x100000B0 :: addr) \<noteq> NULL" "(0x100000B0 :: addr) - sizeof_block_header_t \<noteq> NULL"
    by (simp_all add: NULL_def sizeof_block_header_t_def)
  have m: "is_mmap (hdr adjacent_3 (0x100000B0 - sizeof_block_header_t)) = 0"
    by (simp add: adjacent_3_def sizeof_block_header_t_def)
  from C2_released_block_has_no_free_follower [OF step_adjacent_4 a m] step_adjacent_4 m
  show ?thesis by simp
qed

text \<open>
  C3 (statistics identity). In every state that a sequence of calls reaches from a state
  with zero counters, \<^verbatim>\<open>current_usage = total_allocated - total_freed\<close> in 64-bit
  arithmetic; a call of \<^verbatim>\<open>mem_malloc\<close> that returns a block adds the block's final size to
  \<^verbatim>\<open>total_allocated\<close> and \<^verbatim>\<open>current_usage\<close>; a call of \<^verbatim>\<open>mem_free\<close> on a non-null pointer
  subtracts the size the block has at the call from \<^verbatim>\<open>current_usage\<close> and adds it to
  \<^verbatim>\<open>total_freed\<close>.
\<close>

theorem C3_statistics_identity:
  assumes "stats s0 = zero_stats"
  shows "(run rs s0 = Some s \<longrightarrow>
            current_usage (stats s) = total_allocated (stats s) - total_freed (stats s)) \<and>
         (mem_malloc n t = Some (p, t1) \<and> p \<noteq> NULL \<longrightarrow>
            total_allocated (stats t1) =
              total_allocated (stats t) + size_b (hdr t1 (p - sizeof_block_header_t)) \<and>
            current_usage (stats t1) =
              current_usage (stats t) + size_b (hdr t1 (p - sizeof_block_header_t))) \<and>
         (mem_free q u = Some u1 \<and> q \<noteq> NULL \<longrightarrow>
            current_usage (stats u1) =
              current_usage (stats u) - size_b (hdr u (q - sizeof_block_header_t)) \<and>
            total_freed (stats u1) =
              total_freed (stats u) + size_b (hdr u (q - sizeof_block_header_t)))"
proof (intro conjI impI)
  assume "run rs s0 = Some s"
  moreover from assms have "usage_identity s0"
    by (simp add: usage_identity_def zero_stats_def)
  ultimately have "usage_identity s" by (rule run_identity)
  then show "current_usage (stats s) = total_allocated (stats s) - total_freed (stats s)"
    by (simp add: usage_identity_def)
next
  assume a: "mem_malloc n t = Some (p, t1) \<and> p \<noteq> NULL"
  with malloc_counts [of n t p t1]
  show "total_allocated (stats t1) =
          total_allocated (stats t) + size_b (hdr t1 (p - sizeof_block_header_t))"
    and "current_usage (stats t1) =
          current_usage (stats t) + size_b (hdr t1 (p - sizeof_block_header_t))"
    by auto
next
  assume a: "mem_free q u = Some u1 \<and> q \<noteq> NULL"
  with free_counts [of q u u1]
  show "current_usage (stats u1) =
          current_usage (stats u) - size_b (hdr u (q - sizeof_block_header_t))"
    and "total_freed (stats u1) =
          total_freed (stats u) + size_b (hdr u (q - sizeof_block_header_t))"
    by auto
qed

theorem C3_statistics_identity_witness:
  "stats fresh_process = zero_stats \<and>
   run [Reset, Malloc 100, Free 0x10000020] fresh_process = Some split_2 \<and>
   current_usage (stats split_2) = total_allocated (stats split_2) - total_freed (stats split_2) \<and>
   mem_malloc 100 fresh_process = Some (0x10000020, heap_1) \<and>
   total_allocated (stats heap_1) = total_allocated (stats fresh_process) + 144 \<and>
   current_usage (stats heap_1) = current_usage (stats fresh_process) + 144 \<and>
   mem_free 0x10000020 heap_1 = Some split_2 \<and>
   current_usage (stats split_2) = current_usage (stats heap_1) - 144 \<and>
   total_freed (stats split_2) = total_freed (stats heap_1) + 144"
proof -
  have z: "stats fresh_process = zero_stats"
    by (simp add: fresh_process_def initial_state_def)
  have r: "run [Reset, Malloc 100, Free 0x10000020] fresh_process = Some split_2"
    by (simp add: reset_fresh_process step_heap_1 step_split_2)
  have sz: "size_b (hdr heap_1 (0x10000020 - sizeof_block_header_t)) = 144"
    by (simp add: heap_1_def sizeof_block_header_t_def)
  have nn: "(0x10000020 :: addr) \<noteq> NULL" by (simp add: NULL_def)
  note c3 = C3_statistics_identity [OF z, where rs = "[Reset, Malloc 100, Free 0x10000020]"
      and s = split_2 and n = 100 and t = fresh_process and p = "0x10000020" and ?t1.0 = heap_1
      and q = "0x10000020" and u = heap_1 and ?u1.0 = split_2]
  from c3 r have "current_usage (stats split_2) =
      total_allocated (stats split_2) - total_freed (stats split_2)"
    by blast
  moreover from c3 step_heap_1 nn have
    "total_allocated (stats heap_1) = total_allocated (stats fresh_process) +
       size_b (hdr heap_1 (0x10000020 - sizeof_block_header_t)) \<and>
     current_usage (stats heap_1) = current_usage (stats fresh_process) +
       size_b (hdr heap_1 (0x10000020 - sizeof_block_header_t))"
    by blast
  moreover from c3 step_split_2 nn have
    "current_usage (stats split_2) = current_usage (stats heap_1) -
       size_b (hdr heap_1 (0x10000020 - sizeof_block_header_t)) \<and>
     total_freed (stats split_2) = total_freed (stats heap_1) +
       size_b (hdr heap_1 (0x10000020 - sizeof_block_header_t))"
    by blast
  ultimately show ?thesis
    using z r step_heap_1 step_split_2 by (simp only: sz)
qed

text \<open>
  C4 (zero-initialised allocation). The claim: \<^verbatim>\<open>mem_calloc\<close> returns null for a zero
  factor and for a product that overflows, and otherwise behaves as
  \<^verbatim>\<open>mem_malloc(count * elem_size)\<close> and leaves every payload byte zero. The code does not
  keep the last part for every pair: \<^verbatim>\<open>mem_calloc(1, SIZE_MAX)\<close> passes the overflow test,
  \<^verbatim>\<open>mem_malloc(SIZE_MAX)\<close> rounds \<open>SIZE_MAX + 32\<close> to a block of 32 bytes and returns its
  payload address, a payload of no bytes, and \<^verbatim>\<open>memset\<close> then writes \<open>SIZE_MAX\<close> bytes
  past the end of that block. (The lemmas \<open>calloc_zero_factor\<close>, \<open>calloc_overflow\<close> and
  \<open>calloc_zeroes\<close> show the claim for every pair whose product is at most
  \<open>SIZE_MAX - H - 15\<close>.)
\<close>

theorem C4_calloc_overruns_wrapped_block:
  "(1 * SIZE_MAX) div 1 = SIZE_MAX \<and>
   mem_malloc (1 * SIZE_MAX) fresh_process = Some (0x10000020, wrapped_1) \<and>
   size_b (hdr wrapped_1 (0x10000020 - sizeof_block_header_t)) = 32 \<and>
   \<not> in_payload wrapped_1 0x10000020 (1 * SIZE_MAX) \<and>
   mem_calloc 1 SIZE_MAX fresh_process = Some (Inl OutOfBounds)"
proof -
  have "size_b (hdr wrapped_1 (0x10000020 - sizeof_block_header_t)) = 32"
    by (simp add: wrapped_1_def sizeof_block_header_t_def)
  moreover have "\<not> in_payload wrapped_1 0x10000020 (1 * SIZE_MAX)"
    by (simp add: in_payload_def wrapped_1_def sizeof_block_header_t_def SIZE_MAX_def unat_eq_0)
  ultimately show ?thesis
    using step_wrapped_1 step_wrapped_calloc by (simp add: SIZE_MAX_def)
qed

text \<open>
  C5 (a failed resize changes nothing). Let \<open>p\<close> be the payload address of a block whose
  capacity \<^verbatim>\<open>size - sizeof(block_header_t)\<close> is below \<open>n\<close>, and let the allocation of \<open>n\<close>
  bytes inside \<^verbatim>\<open>mem_realloc\<close> return null. Then \<^verbatim>\<open>mem_realloc\<close> returns null; every header
  (so the old block's size, flags and list pointers), every payload byte, the list heads,
  the heap bounds, the break, the mappings and all seven counters are as before; the block
  has the \<^verbatim>\<open>is_free\<close> flag and the free-list membership it had. The state is one that a
  process can be in: the break is not the null address, and the search of the free lists
  does not select a block whose payload address would be null.
\<close>

theorem C5_failed_resize_changes_nothing:
  assumes "p \<noteq> NULL"
    and "size_b (hdr s (p - sizeof_block_header_t)) - sizeof_block_header_t < n"
    and "mem_malloc n s = Some (NULL, s1)"
    and "brk s \<noteq> NULL"
    and "find_free_block (align_size (n + sizeof_block_header_t)) s
           \<noteq> Some (- sizeof_block_header_t)"
  shows "mem_realloc p n s = Some (Inr (NULL, s1)) \<and>
         hdr s1 = hdr s \<and> bytes s1 = bytes s \<and> free_lists s1 = free_lists s \<and>
         stats s1 = stats s \<and> heap_start s1 = heap_start s \<and> heap_end s1 = heap_end s \<and>
         brk s1 = brk s \<and> mappings s1 = mappings s \<and>
         is_free (hdr s1 (p - sizeof_block_header_t)) =
           is_free (hdr s (p - sizeof_block_header_t)) \<and>
         on_free_list s1 (p - sizeof_block_header_t) =
           on_free_list s (p - sizeof_block_header_t)"
proof -
  from assms(2) have nz: "n \<noteq> 0"
    by (auto simp: word_less_nat_alt)
  from assms(2) have grow:
    "\<not> n \<le> size_b (hdr s (p - sizeof_block_header_t)) - sizeof_block_header_t"
    by simp
  have same: "s1 = s\<lparr>mmap_answers := mmap_answers s1\<rparr>"
    by (rule malloc_null_unchanged [OF assms(3-5)])
  have fields: "hdr s1 = hdr s" "bytes s1 = bytes s" "free_lists s1 = free_lists s"
    "stats s1 = stats s" "heap_start s1 = heap_start s" "heap_end s1 = heap_end s"
    "brk s1 = brk s" "mappings s1 = mappings s"
    by (subst same, simp)+
  have "mem_realloc p n s = Some (Inr (NULL, s1))"
    using assms(1,3) nz grow by (simp add: mem_realloc_def Let_def)
  with fields on_free_list_same [OF fields(1,3)] show ?thesis
    by simp
qed

theorem C5_failed_resize_changes_nothing_witness:
  "size_b (hdr tight_1 (0x10000020 - sizeof_block_header_t)) - sizeof_block_header_t < 70000 \<and>
   mem_malloc 70000 tight_1 = Some (NULL, tight_1) \<and>
   mem_realloc 0x10000020 70000 tight_1 = Some (Inr (NULL, tight_1))"
proof -
  have p: "(0x10000020 :: addr) \<noteq> NULL" by (simp add: NULL_def)
  have c: "size_b (hdr tight_1 (0x10000020 - sizeof_block_header_t)) - sizeof_block_header_t
             < 70000"
    by (simp add: tight_1_def sizeof_block_header_t_def)
  have b: "brk tight_1 \<noteq> NULL" by (simp add: tight_1_def NULL_def)
  have f: "find_free_block (align_size (70000 + sizeof_block_header_t)) tight_1
             \<noteq> Some (- sizeof_block_header_t)"
    by (simp add: tight_1_def run_simps cong: let_weak_cong)
  from C5_failed_resize_changes_nothing [OF p c step_tight_fails b f] c step_tight_fails
  show ?thesis by simp
qed

text \<open>
  C6 (resize to a smaller size returns the same address). The claim rests on the payload
  capacity \<open>align16(a + H) - H\<close> being at least \<open>a\<close>, which fails when \<open>a + H + 15\<close> wraps.
  \<^verbatim>\<open>p = mem_malloc(SIZE_MAX)\<close> returns a block of 32 bytes, and \<^verbatim>\<open>mem_realloc(p, 1)\<close>, with
  \<open>0 < 1 \<le> SIZE_MAX\<close>, finds a capacity of 0, allocates another block and returns its
  address, not \<open>p\<close>. (The lemma \<open>realloc_within_capacity\<close> shows the claim for every
  \<open>a \<le> SIZE_MAX - H - 15\<close>.)
\<close>

theorem C6_resize_after_wrapped_allocation_moves:
  "mem_malloc SIZE_MAX fresh_process = Some (0x10000020, wrapped_1) \<and>
   size_b (hdr wrapped_1 (0x10000020 - sizeof_block_header_t)) - sizeof_block_header_t = 0 \<and>
   mem_realloc 0x10000020 1 wrapped_1 = Some (Inr (0x10000040, wrapped_2)) \<and>
   (0x10000040 :: addr) \<noteq> 0x10000020"
proof -
  have "size_b (hdr wrapped_1 (0x10000020 - sizeof_block_header_t)) - sizeof_block_header_t = 0"
    by (simp add: wrapped_1_def sizeof_block_header_t_def)
  then show ?thesis
    using step_wrapped_1 step_wrapped_2 by (simp add: SIZE_MAX_def)
qed

text \<open>
  C7 (coalescing scenario). After a reset, three allocations of 100 bytes and the
  releases of the middle, the first and the last block, the claim has the coalesce
  counter at 2 or more and the three blocks merged into one free block. The counter is 2,
  but the memory is held by two free blocks: the free block at the first block's address
  ends where the third block began, because a released block is never merged with the
  free block before it.
\<close>

theorem C7_counterexample_two_free_blocks:
  "mem_malloc 100 (mem_reset fresh_process) = Some (0x10000020, heap_1) \<and>
   mem_malloc 100 heap_1 = Some (0x100000B0, heap_2) \<and>
   mem_malloc 100 heap_2 = Some (0x10000140, heap_3) \<and>
   mem_free 0x100000B0 heap_3 = Some coalesce_4 \<and>
   mem_free 0x10000020 coalesce_4 = Some coalesce_5 \<and>
   mem_free 0x10000140 coalesce_5 = Some coalesce_6 \<and>
   size_b (hdr heap_3 (0x10000140 - sizeof_block_header_t)) = 144 \<and>
   \<not> spans coalesce_6 (0x10000020 - sizeof_block_header_t)
       (0x10000140 - sizeof_block_header_t + 144)"
proof -
  have "size_b (hdr heap_3 (0x10000140 - sizeof_block_header_t)) = 144"
    by (simp add: heap_3_def sizeof_block_header_t_def)
  moreover have "\<not> spans coalesce_6 (0x10000020 - sizeof_block_header_t)
       (0x10000140 - sizeof_block_header_t + 144)"
    by (simp add: spans_def coalesce_6_def sizeof_block_header_t_def)
  ultimately show ?thesis
    using step_heap_1 step_heap_2 step_heap_3 step_coalesce_4 step_coalesce_5 step_coalesce_6
    by (simp add: reset_fresh_process)
qed

text \<open>
  C7 as amended: from any reset state in which the heap can grow, the coalesce counter is
  2, and at quiescence the memory of the three blocks is held by two free blocks. With
  \<open>B\<close> the break at the start, the blocks of \<open>a\<close>, \<open>b\<close> and \<open>c\<close> are at \<open>B\<close>, \<open>B + 144\<close> and
  \<open>B + 288\<close>. The first and the middle block are one block of 288 bytes at \<open>B\<close>, at the
  head of the class-4 list; it ends where the last block begins. The last block is merged
  with the free remainder of the heap behind it into one block of 65248 bytes, at the
  head of the class-9 list, which ends at the end of the heap.
\<close>

theorem C7_coalescing_scenario:
  assumes "reset_ready s"
  shows "mem_malloc 100 (mem_reset s) = Some (brk s + 32, grown_1 s) \<and>
   mem_malloc 100 (grown_1 s) = Some (brk s + 176, grown_2 s) \<and>
   mem_malloc 100 (grown_2 s) = Some (brk s + 320, grown_3 s) \<and>
   mem_free (brk s + 176) (grown_3 s) = Some (merged_4 s) \<and>
   mem_free (brk s + 32) (merged_4 s) = Some (merged_5 s) \<and>
   mem_free (brk s + 320) (merged_5 s) = Some (merged_6 s) \<and>
   num_coalesces (mem_get_stats (merged_6 s)) = 2 \<and>
   hdr (merged_6 s) (brk s + 32 - sizeof_block_header_t) =
     \<lparr>size_b = 288, next_b = NULL, prev_b = NULL, is_free = 1, is_mmap = 0\<rparr> \<and>
   free_lists (merged_6 s) (get_size_class 288) = brk s + 32 - sizeof_block_header_t \<and>
   brk s + 32 - sizeof_block_header_t + 288 = brk s + 320 - sizeof_block_header_t \<and>
   hdr (merged_6 s) (brk s + 320 - sizeof_block_header_t) =
     \<lparr>size_b = 65248, next_b = NULL, prev_b = NULL, is_free = 1, is_mmap = 0\<rparr> \<and>
   free_lists (merged_6 s) (get_size_class 65248) = brk s + 320 - sizeof_block_header_t \<and>
   brk s + 320 - sizeof_block_header_t + 65248 = heap_end (merged_6 s)"
proof -
  have "num_coalesces (mem_get_stats (merged_6 s)) = 2"
    by (simp add: mem_get_stats_def merged_6_def)
  moreover have "hdr (merged_6 s) (brk s + 32 - sizeof_block_header_t) =
     \<lparr>size_b = 288, next_b = NULL, prev_b = NULL, is_free = 1, is_mmap = 0\<rparr>"
    "hdr (merged_6 s) (brk s + 320 - sizeof_block_header_t) =
     \<lparr>size_b = 65248, next_b = NULL, prev_b = NULL, is_free = 1, is_mmap = 0\<rparr>"
    by (simp_all add: merged_6_def sizeof_block_header_t_def NULL_def)
  moreover have
    "free_lists (merged_6 s) (get_size_class 288) = brk s + 32 - sizeof_block_header_t"
    "free_lists (merged_6 s) (get_size_class 65248) = brk s + 320 - sizeof_block_header_t"
    "brk s + 320 - sizeof_block_header_t + 65248 = heap_end (merged_6 s)"
    by (simp_all add: merged_6_def sizeof_block_header_t_def get_size_class_def)
  moreover have
    "brk s + 32 - sizeof_block_header_t + 288 = brk s + 320 - sizeof_block_header_t"
    by (simp add: sizeof_block_header_t_def)
  ultimately show ?thesis
    using general_grown_1 [OF assms] general_grown_2 [OF assms] general_grown_3 [OF assms]
      general_merged_4 [OF assms] general_merged_5 [OF assms] general_merged_6 [OF assms]
    by simp
qed

theorem C7_coalescing_scenario_witness:
  "reset_ready fresh_process \<and>
   mem_free (brk fresh_process + 320) (merged_5 fresh_process) = Some (merged_6 fresh_process) \<and>
   num_coalesces (mem_get_stats (merged_6 fresh_process)) = 2 \<and>
   size_b (hdr (merged_6 fresh_process) 0x10000000) = 288 \<and>
   size_b (hdr (merged_6 fresh_process) 0x10000120) = 65248"
proof -
  note scenario = C7_coalescing_scenario [OF ready_fresh_process]
  have "brk fresh_process = 0x10000000"
    by (simp add: fresh_process_def initial_state_def)
  with scenario have "size_b (hdr (merged_6 fresh_process) 0x10000000) = 288"
    "size_b (hdr (merged_6 fresh_process) 0x10000120) = 65248"
    by (simp_all add: sizeof_block_header_t_def)
  with scenario ready_fresh_process show ?thesis
    by blast
qed

text \<open>
  C8 (split scenario). After a reset, \<^verbatim>\<open>a = mem_malloc(100); mem_free(a);
  mem_malloc(50)\<close>, the claim has the split counter at exactly 1. It is 2.
\<close>

theorem C8_counterexample_two_splits:
  "mem_malloc 100 (mem_reset fresh_process) = Some (0x10000020, heap_1) \<and>
   mem_free 0x10000020 heap_1 = Some split_2 \<and>
   mem_malloc 50 split_2 = Some (0x10000020, split_3) \<and>
   num_splits (mem_get_stats split_3) \<noteq> 1"
proof -
  have "num_splits (mem_get_stats split_3) \<noteq> 1"
    by (simp add: mem_get_stats_def split_3_def)
  then show ?thesis
    using step_heap_1 step_split_2 step_split_3 by (simp add: reset_fresh_process)
qed

text \<open>
  C8 as amended: from any reset state in which the heap can grow, the split counter is
  exactly 2. The first allocation splits the fresh 64 KiB heap block (counter 1). The
  release merges the freed block of 144 bytes with the free remainder behind it into one
  block of 65536 bytes (one coalesce, no split). The request for 50 bytes, a block of 96
  bytes, is carved out of that block (counter 2).
\<close>

theorem C8_split_scenario:
  assumes "reset_ready s"
  shows "mem_malloc 100 (mem_reset s) = Some (brk s + 32, grown_1 s) \<and>
   num_splits (mem_get_stats (grown_1 s)) = 1 \<and>
   mem_free (brk s + 32) (grown_1 s) = Some (rejoined_2 s) \<and>
   num_splits (mem_get_stats (rejoined_2 s)) = 1 \<and>
   num_coalesces (mem_get_stats (rejoined_2 s)) = 1 \<and>
   size_b (hdr (rejoined_2 s) (brk s + 32 - sizeof_block_header_t)) = 65536 \<and>
   mem_malloc 50 (rejoined_2 s) = Some (brk s + 32, carved_3 s) \<and>
   size_b (hdr (carved_3 s) (brk s + 32 - sizeof_block_header_t)) = 96 \<and>
   num_splits (mem_get_stats (carved_3 s)) = 2"
proof -
  have "num_splits (mem_get_stats (grown_1 s)) = 1"
    by (simp add: mem_get_stats_def grown_1_def)
  moreover have "num_splits (mem_get_stats (rejoined_2 s)) = 1"
    "num_coalesces (mem_get_stats (rejoined_2 s)) = 1"
    "size_b (hdr (rejoined_2 s) (brk s + 32 - sizeof_block_header_t)) = 65536"
    by (simp_all add: mem_get_stats_def rejoined_2_def sizeof_block_header_t_def)
  moreover have "size_b (hdr (carved_3 s) (brk s + 32 - sizeof_block_header_t)) = 96"
    "num_splits (mem_get_stats (carved_3 s)) = 2"
    by (simp_all add: mem_get_stats_def carved_3_def sizeof_block_header_t_def)
  ultimately show ?thesis
    using general_grown_1 [OF assms] general_rejoined_2 [OF assms] general_carved_3 [OF assms]
    by simp
qed

theorem C8_split_scenario_witness:
  "reset_ready fresh_process \<and>
   mem_malloc 50 (rejoined_2 fresh_process) = Some (brk fresh_process + 32, carved_3 fresh_process) \<and>
   num_splits (mem_get_stats (carved_3 fresh_process)) = 2"
  using C8_split_scenario [OF ready_fresh_process] ready_fresh_process by blast



text \<open>
  C10 (the size rounding wraps). \<^verbatim>\<open>mem_malloc\<close> computes \<open>align16(n + H)\<close> in 64-bit
  arithmetic with no guard. For every \<open>n\<close> above \<open>SIZE_MAX - H - 15\<close> the rounded block size
  is the wrapped value, \<open>n + H + 15 - 2^64\<close> rounded down to a multiple of 16, which is at
  most 32; and \<^verbatim>\<open>mem_malloc(n)\<close> in a fresh process does not fail: it returns a non-null
  address whose block has that rounded size, fewer bytes than the \<open>n\<close> requested. For
  \<open>n = SIZE_MAX\<close> the rounded size is 32, and \<^verbatim>\<open>mem_malloc(SIZE_MAX)\<close> returns a block of 32
  bytes.
\<close>

theorem C10_size_rounding_wraps:
  "(SIZE_MAX - sizeof_block_header_t - 15 < n \<longrightarrow>
      unat (align_size (n + sizeof_block_header_t)) =
        (unat n + unat sizeof_block_header_t + 15 - 2 ^ 64) div 16 * 16 \<and>
      align_size (n + sizeof_block_header_t) \<le> 32 \<and>
      (\<exists>s1. mem_malloc n fresh_process = Some (0x10000020, s1) \<and>
         size_b (hdr s1 (0x10000020 - sizeof_block_header_t)) =
           align_size (n + sizeof_block_header_t) \<and>
         size_b (hdr s1 (0x10000020 - sizeof_block_header_t)) < n)) \<and>
   align_size (SIZE_MAX + sizeof_block_header_t) = 32 \<and>
   mem_malloc SIZE_MAX fresh_process = Some (0x10000020, wrapped_1) \<and>
   (0x10000020 :: addr) \<noteq> NULL \<and>
   size_b (hdr wrapped_1 (0x10000020 - sizeof_block_header_t)) = 32"
proof (intro conjI impI)
  assume range: "SIZE_MAX - sizeof_block_header_t - 15 < n"
  note exact = wrapped_sizes(1) [OF range]
  then show "unat (align_size (n + sizeof_block_header_t)) =
      (unat n + unat sizeof_block_header_t + 15 - 2 ^ 64) div 16 * 16"
    by (simp add: sizeof_block_header_t_def)
  have "k \<le> 46 \<Longrightarrow> k div 16 * 16 \<le> 32" for k :: nat
    by presburger
  from this [OF wrapped_sizes(2) [OF range]] exact have le: "unat (align_size (n + sizeof_block_header_t)) \<le> 32"
    by simp
  then show small: "align_size (n + sizeof_block_header_t) \<le> 32"
    by (simp add: word_le_nat_alt)
  from range have "2 ^ 64 - 48 < unat n"
    by (simp add: SIZE_MAX_def sizeof_block_header_t_def word_less_nat_alt)
  with le have less: "align_size (n + sizeof_block_header_t) < n"
    by (simp add: word_less_nat_alt)
  from malloc_wrapped [OF range] obtain s1 where
    "mem_malloc n fresh_process = Some (0x10000020, s1)"
    "size_b (hdr s1 (0x10000020 - sizeof_block_header_t)) =
       align_size (n + sizeof_block_header_t)"
    by blast
  with less show "\<exists>s1. mem_malloc n fresh_process = Some (0x10000020, s1) \<and>
      size_b (hdr s1 (0x10000020 - sizeof_block_header_t)) =
        align_size (n + sizeof_block_header_t) \<and>
      size_b (hdr s1 (0x10000020 - sizeof_block_header_t)) < n"
    by simp
next
  show "align_size (SIZE_MAX + sizeof_block_header_t) = 32"
    by (simp add: align_size_def constants)
  show "mem_malloc SIZE_MAX fresh_process = Some (0x10000020, wrapped_1)"
    using step_wrapped_1 by (simp add: SIZE_MAX_def)
  show "(0x10000020 :: addr) \<noteq> NULL" by (simp add: NULL_def)
  show "size_b (hdr wrapped_1 (0x10000020 - sizeof_block_header_t)) = 32"
    by (simp add: wrapped_1_def sizeof_block_header_t_def)
qed

theorem C10_size_rounding_wraps_witness:
  "SIZE_MAX - sizeof_block_header_t - 15 < SIZE_MAX - 47 + 1 \<and>
   align_size (SIZE_MAX - 47 + 1 + sizeof_block_header_t) \<le> 32 \<and>
   (\<exists>s1. mem_malloc (SIZE_MAX - 47 + 1) fresh_process = Some (0x10000020, s1) \<and>
      size_b (hdr s1 (0x10000020 - sizeof_block_header_t)) =
        align_size (SIZE_MAX - 47 + 1 + sizeof_block_header_t) \<and>
      size_b (hdr s1 (0x10000020 - sizeof_block_header_t)) < SIZE_MAX - 47 + 1)"
proof -
  have "SIZE_MAX - sizeof_block_header_t - 15 < SIZE_MAX - 47 + 1"
    by (simp add: SIZE_MAX_def sizeof_block_header_t_def)
  with C10_size_rounding_wraps [of "SIZE_MAX - 47 + 1"] show ?thesis by blast
qed

end
